theory Spec2Isabelle
  imports Main "HOL-Library.AList"
begin

section \<open>Python values and the built-in operations the program uses\<close>

text \<open>
  The exceptions the two modules can raise or catch. Every \<open>raise\<close> of the source
  (and of the built-ins it calls) is the \<open>Inl\<close> branch of a result of type
  \<open>py_error + 'a\<close>.
\<close>

datatype py_error =
    IndexError
  | AssertionError
  | ValueError
  | KeyError
  | TypeError
  | AttributeError
  | JSONDecodeError
  | NotFoundError

text \<open>\<open>xs[i]\<close> on a Python list: a negative index counts from the end, an index out
  of range raises \<open>IndexError\<close>.\<close>

definition py_index :: "'a list \<Rightarrow> int \<Rightarrow> py_error + 'a" where
  "py_index xs i =
     (if 0 \<le> i \<and> i < int (length xs) then Inr (xs ! nat i)
      else if i < 0 \<and> - int (length xs) \<le> i then Inr (xs ! nat (int (length xs) + i))
      else Inl IndexError)"

text \<open>\<open>s.startswith(p)\<close>.\<close>

definition startswith :: "string \<Rightarrow> string \<Rightarrow> bool" where
  "startswith s p = (take (length p) s = p)"

text \<open>\<open>s.split(sep)\<close> for a separator of one character: the pieces between the
  occurrences of the separator, empty pieces included; the result is never empty.\<close>

fun split_acc :: "char \<Rightarrow> string \<Rightarrow> string \<Rightarrow> string list" where
  "split_acc sep cur [] = [rev cur]"
| "split_acc sep cur (c # cs) =
     (if c = sep then rev cur # split_acc sep [] cs else split_acc sep (c # cur) cs)"

definition py_split :: "char \<Rightarrow> string \<Rightarrow> string list" where
  "py_split sep s = split_acc sep [] s"

text \<open>\<open>s.replace(pat, '')\<close> for a non-empty pattern: every occurrence of the pattern,
  found from the left and not overlapping, is deleted.\<close>

function py_remove :: "string \<Rightarrow> string \<Rightarrow> string" where
  "py_remove pat [] = []"
| "py_remove pat (c # cs) =
     (if pat \<noteq> [] \<and> startswith (c # cs) pat
      then py_remove pat (drop (length pat) (c # cs))
      else c # py_remove pat cs)"
  by pat_completeness auto
termination
  by (relation "measure (\<lambda>(pat, s). length s)") (auto simp: startswith_def)

text \<open>A \<open>for\<close> loop over a list whose body may raise: the loop stops at the first
  exception, which then leaves the enclosing function.\<close>

fun for_each :: "('s \<Rightarrow> 'a \<Rightarrow> py_error + 's) \<Rightarrow> 'a list \<Rightarrow> 's \<Rightarrow> py_error + 's" where
  "for_each f [] s = Inr s"
| "for_each f (x # xs) s = (case f s x of Inl e \<Rightarrow> Inl e | Inr s' \<Rightarrow> for_each f xs s')"

text \<open>A list comprehension \<open>[f(x) for x in xs]\<close> whose element expression may raise.\<close>

fun map_err :: "('a \<Rightarrow> py_error + 'b) \<Rightarrow> 'a list \<Rightarrow> py_error + 'b list" where
  "map_err f [] = Inr []"
| "map_err f (x # xs) =
     (case f x of
        Inl e \<Rightarrow> Inl e
      | Inr y \<Rightarrow> (case map_err f xs of Inl e \<Rightarrow> Inl e | Inr ys \<Rightarrow> Inr (y # ys)))"

subsection \<open>Integers and their decimal text\<close>

text \<open>
  \<open>str(n)\<close> for an integer and \<open>int(s)\<close> for a string. The model of \<open>int\<close> covers
  ASCII text: surrounding white space is dropped, one sign is allowed, and the digits
  may be grouped by single underscores. (Python also accepts the decimal digits and the
  spaces of other scripts; strings here are ASCII.)
\<close>

definition digit_chars :: string where
  "digit_chars = ''0123456789''"

definition digit_val :: "char \<Rightarrow> nat option" where
  "digit_val c = map_of (zip digit_chars [0..<10]) c"

function nat_digits :: "nat \<Rightarrow> string" where
  "nat_digits n =
     (if n < 10 then [digit_chars ! n] else nat_digits (n div 10) @ [digit_chars ! (n mod 10)])"
  by pat_completeness auto
termination
  by (relation "measure (\<lambda>n. n)") auto

declare nat_digits.simps [simp del]

definition py_str :: "int \<Rightarrow> string" where
  "py_str n = (if n < 0 then CHR ''-'' # nat_digits (nat (- n)) else nat_digits (nat n))"

definition is_space :: "char \<Rightarrow> bool" where
  "is_space c \<longleftrightarrow>
     c \<in> set [CHR 0x09, CHR 0x0A, CHR 0x0B, CHR 0x0C, CHR 0x0D,
              CHR 0x1C, CHR 0x1D, CHR 0x1E, CHR 0x1F, CHR 0x20]"

definition py_strip :: "string \<Rightarrow> string" where
  "py_strip s = rev (dropWhile is_space (rev (dropWhile is_space s)))"

text \<open>The digits of a literal: \<open>need\<close> says that a digit must come next (at the start
  and after an underscore).\<close>

fun parse_digits :: "bool \<Rightarrow> nat \<Rightarrow> string \<Rightarrow> nat option" where
  "parse_digits need acc [] = (if need then None else Some acc)"
| "parse_digits need acc (c # cs) =
     (case digit_val c of
        Some d \<Rightarrow> parse_digits False (10 * acc + d) cs
      | None \<Rightarrow> if c = CHR ''_'' \<and> \<not> need then parse_digits True acc cs else None)"

definition py_int :: "string \<Rightarrow> py_error + int" where
  "py_int s =
     (case py_strip s of
        [] \<Rightarrow> Inl ValueError
      | c # cs \<Rightarrow>
          if c = CHR ''-'' then
            (case parse_digits True 0 cs of None \<Rightarrow> Inl ValueError | Some v \<Rightarrow> Inr (- int v))
          else if c = CHR ''+'' then
            (case parse_digits True 0 cs of None \<Rightarrow> Inl ValueError | Some v \<Rightarrow> Inr (int v))
          else
            (case parse_digits True 0 (c # cs) of
               None \<Rightarrow> Inl ValueError
             | Some v \<Rightarrow> Inr (int v)))"

subsection \<open>Values and dictionaries\<close>

text \<open>
  The Python values the program builds and stores. A dictionary is the list of its
  items in insertion order; its keys are strings or integers (the only kinds of key the
  program uses). The type \<open>'f\<close> stands for Python's \<open>float\<close>: the program only
  carries floats around and subtracts them, so all that is asked of \<open>'f\<close> is a
  subtraction.
\<close>

datatype pykey = KStr string | KInt int

datatype 'f pyval =
    PNone
  | PBool bool
  | PInt int
  | PFloat 'f
  | PStr string
  | PList "'f pyval list"
  | PDict "(pykey \<times> 'f pyval) list"

text \<open>\<open>d[k] = v\<close>: an existing key keeps its place and takes the new value, a new key
  is added at the end.\<close>

definition dict_set :: "('k \<times> 'v) list \<Rightarrow> 'k \<Rightarrow> 'v \<Rightarrow> ('k \<times> 'v) list" where
  "dict_set d k v = AList.update k v d"

text \<open>\<open>d[k]\<close> on a dictionary.\<close>

definition dict_get :: "('k \<times> 'v) list \<Rightarrow> 'k \<Rightarrow> py_error + 'v" where
  "dict_get d k = (case map_of d k of None \<Rightarrow> Inl KeyError | Some v \<Rightarrow> Inr v)"

text \<open>\<open>dict(pairs)\<close>: the items are inserted one after the other.\<close>

definition dict_of_pairs :: "('k \<times> 'v) list \<Rightarrow> ('k \<times> 'v) list" where
  "dict_of_pairs kvs = foldl (\<lambda>d (k, v). dict_set d k v) [] kvs"

text \<open>\<open>v[name]\<close> for a string \<open>name\<close> on an arbitrary value: only a dictionary can be
  subscripted by a string.\<close>

definition py_subscript :: "'f pyval \<Rightarrow> string \<Rightarrow> py_error + 'f pyval" where
  "py_subscript v name =
     (case v of PDict d \<Rightarrow> dict_get d (KStr name) | _ \<Rightarrow> Inl TypeError)"

text \<open>\<open>len(v)\<close>.\<close>

definition py_len :: "'f pyval \<Rightarrow> py_error + nat" where
  "py_len v =
     (case v of
        PStr s \<Rightarrow> Inr (length s)
      | PList xs \<Rightarrow> Inr (length xs)
      | PDict d \<Rightarrow> Inr (length d)
      | _ \<Rightarrow> Inl TypeError)"

text \<open>\<open>int(id)\<close> on a key.\<close>

definition py_int_key :: "pykey \<Rightarrow> py_error + int" where
  "py_int_key k = (case k of KStr s \<Rightarrow> py_int s | KInt n \<Rightarrow> Inr n)"

subsection \<open>JSON documents\<close>

text \<open>
  The \<open>json\<close> module is modelled at the level of documents, not of their text:
  \<open>json_dumps\<close> is the document that \<open>json.dump\<close> writes for a value, and
  \<open>json_loads\<close> the value that \<open>json.load\<close> builds from a document. The keys of a
  JSON object are strings: \<open>json.dump\<close> writes an integer key \<open>n\<close> as \<open>str(n)\<close>,
  and \<open>json.load\<close> builds each object with \<open>dict(pairs)\<close>.
\<close>

datatype 'f json =
    JNull
  | JBool bool
  | JInt int
  | JFloat 'f
  | JString string
  | JArray "'f json list"
  | JObject "(string \<times> 'f json) list"

definition json_key :: "pykey \<Rightarrow> string" where
  "json_key k = (case k of KStr s \<Rightarrow> s | KInt n \<Rightarrow> py_str n)"

primrec json_dumps :: "'f pyval \<Rightarrow> 'f json" where
  "json_dumps PNone = JNull"
| "json_dumps (PBool b) = JBool b"
| "json_dumps (PInt n) = JInt n"
| "json_dumps (PFloat x) = JFloat x"
| "json_dumps (PStr s) = JString s"
| "json_dumps (PList xs) = JArray (map json_dumps xs)"
| "json_dumps (PDict d) = JObject (map (map_prod json_key json_dumps) d)"

primrec json_loads :: "'f json \<Rightarrow> 'f pyval" where
  "json_loads JNull = PNone"
| "json_loads (JBool b) = PBool b"
| "json_loads (JInt n) = PInt n"
| "json_loads (JFloat x) = PFloat x"
| "json_loads (JString s) = PStr s"
| "json_loads (JArray xs) = PList (map json_loads xs)"
| "json_loads (JObject kvs) = PDict (dict_of_pairs (map (map_prod KStr json_loads) kvs))"

section \<open>The remote service and the local state\<close>

text \<open>
  What the program reads from the objects of the GitHub client: a comment, a review, an
  issue, a pull request, and a repository with its listings of closed issues and closed
  pull requests. Time stamps are the floats that \<open>.timestamp()\<close> returns. The listing
  of closed issues also holds the pull requests that GitHub lists as issues; their
  \<open>pull_request\<close> attribute is not \<open>None\<close>.
\<close>

record comment =
  comment_login :: string
  comment_body :: string

record 'f review =
  review_id :: int
  review_login :: string
  review_body :: string
  review_submitted_at :: 'f
  review_state :: string

record 'f issue =
  issue_number :: int
  issue_pull_request :: "string option"
  issue_user_login :: string
  issue_created_at :: 'f
  issue_closed_at :: 'f
  issue_closed_by_login :: string
  issue_labels :: "string list"
  issue_comments :: "comment list"

record 'f pull =
  pull_number :: int
  pull_commits :: int
  pull_user_login :: string
  pull_created_at :: 'f
  pull_closed_at :: 'f
  pull_closed_by_login :: string
  pull_merged_at :: "'f option"
  pull_labels :: "string list"
  pull_issue_comments :: "comment list"
  pull_reviews :: "'f review list"
  pull_review_requests :: "string list \<times> string list"

record 'f repository =
  closed_issues :: "'f issue list"
  closed_pulls :: "'f pull list"

text \<open>
  A path is the list of its parts, as \<open>pathlib\<close> keeps it; an absolute path starts
  with the part \<open>/\<close>. \<open>p.joinpath(s)\<close> appends the parts of \<open>s\<close>, and is \<open>s\<close> itself
  when \<open>s\<close> is absolute; empty parts and \<open>.\<close> are dropped.
\<close>

type_synonym path = "string list"

definition path_parts :: "string \<Rightarrow> path" where
  "path_parts s =
     (if startswith s ''/'' then [''/''] else []) @
     filter (\<lambda>c. c \<noteq> [] \<and> c \<noteq> ''.'') (py_split CHR ''/'' s)"

definition joinpath :: "path \<Rightarrow> string \<Rightarrow> path" where
  "joinpath p s = (if startswith s ''/'' then path_parts s else p @ path_parts s)"

text \<open>
  A file has no length, or holds the text of a JSON document, or holds other text. The
  text that \<open>json.dump\<close> writes is never empty. The state of the run is the file
  system, the documents of the object store under their names, and the working
  directory (its parts below the root). \<open>save_log\<close> lists the calls of
  \<open>save_knowledge\<close> made so far, each with the path and the data it was given.
\<close>

datatype 'f file_content = ZeroLength | JsonText "'f json" | OtherText

record 'f world =
  files :: "path \<Rightarrow> 'f file_content option"
  ceph :: "string \<Rightarrow> 'f json option"
  cwd :: "string list"
  save_log :: "(path \<times> (pykey \<times> 'f pyval) list) list"

section \<open>create\_bot\_knowledge.py\<close>

definition ISSUE_KEYWORDS :: "string set" where
  "ISSUE_KEYWORDS =
     {''close'', ''closes'', ''closed'', ''fix'', ''fixes'', ''fixed'',
      ''resolve'', ''resolves'', ''resolved''}"

subsection \<open>Labels\<close>

definition STANDALONE_LABELS :: "string set" where
  "STANDALONE_LABELS = {''size''}"

text \<open>
  \<^verbatim>\<open>
  for label in labels:
      if label.startswith('size'):
          return label.split('/')[1]
  \<close>
  The function returns \<open>None\<close> when the loop ends without a \<open>return\<close>.
\<close>

fun get_labeled_size :: "string list \<Rightarrow> py_error + string option" where
  "get_labeled_size [] = Inr None"
| "get_labeled_size (label # labels) =
     (if startswith label ''size''
      then (case py_index (py_split CHR ''/'' label) 1 of
              Inl e \<Rightarrow> Inl e
            | Inr s \<Rightarrow> Inr (Some s))
      else get_labeled_size labels)"

text \<open>\<^verbatim>\<open>[label for label in labels if label not in STANDALONE_LABELS]\<close>\<close>

definition get_non_standalone_labels :: "string list \<Rightarrow> string list" where
  "get_non_standalone_labels labels = filter (\<lambda>label. label \<notin> STANDALONE_LABELS) labels"

subsection \<open>get\_referenced\_issues\<close>

text \<open>
  The body of the \<open>try\<close>:
  \<^verbatim>\<open>
  referenced_issue_number = message[idx+1]
  assert(referenced_issue_number).startswith('https')
  issues_referenced.append(referenced_issue_number.split('/')[-1])
  \<close>
  It gives the string to append, or the exception raised.
\<close>

definition referenced_issue_number :: "string list \<Rightarrow> nat \<Rightarrow> py_error + string" where
  "referenced_issue_number message idx =
     (case py_index message (int idx + 1) of
        Inl e \<Rightarrow> Inl e
      | Inr tok \<Rightarrow>
          if startswith tok ''https'' then py_index (py_split CHR ''/'' tok) (- 1)
          else Inl AssertionError)"

text \<open>One round of \<open>for idx, word in enumerate(message)\<close>; \<open>IndexError\<close> and
  \<open>AssertionError\<close> are caught, any other exception leaves the function.\<close>

definition scan_word ::
  "string list \<Rightarrow> string list \<Rightarrow> nat \<times> string \<Rightarrow> py_error + string list" where
  "scan_word message issues_referenced iw =
     (case iw of (idx, word) \<Rightarrow>
        if py_remove '':'' word \<in> ISSUE_KEYWORDS then
          (case referenced_issue_number message idx of
             Inr r \<Rightarrow> Inr (issues_referenced @ [r])
           | Inl e \<Rightarrow>
               if e = IndexError \<or> e = AssertionError then Inr issues_referenced else Inl e)
        else Inr issues_referenced)"

text \<open>One round of \<open>for comment in pull_request.get_issue_comments()\<close>.\<close>

definition scan_comment :: "string list \<Rightarrow> string \<Rightarrow> py_error + string list" where
  "scan_comment issues_referenced body =
     (let message = py_split CHR '' '' body
      in for_each (scan_word message) (enumerate 0 message) issues_referenced)"

definition scan_bodies :: "string list \<Rightarrow> py_error + string list" where
  "scan_bodies bodies = for_each scan_comment bodies []"

definition get_referenced_issues :: "('f, 'x) pull_scheme \<Rightarrow> py_error + string list" where
  "get_referenced_issues pull_request =
     scan_bodies (map comment_body (pull_issue_comments pull_request))"

subsection \<open>get\_only\_new\_entities\<close>

text \<open>\<open>number\<close> reads the attribute \<open>.number\<close> of a listed entity (an issue or a
  pull request).\<close>

definition get_only_new_entities ::
  "('e \<Rightarrow> int) \<Rightarrow> (pykey \<times> 'v) list \<Rightarrow> 'e list \<Rightarrow> py_error + 'e list" where
  "get_only_new_entities number old_data new_data =
     (case map_err py_int_key (map fst old_data) of
        Inl e \<Rightarrow> Inl e
      | Inr old_knowledge_ids \<Rightarrow>
          let new_knowledge_ids = map number new_data;
              only_new_ids = set new_knowledge_ids - set old_knowledge_ids
          in Inr (filter (\<lambda>x. number x \<in> only_new_ids) new_data))"

subsection \<open>Loading and saving a knowledge file\<close>

definition load_previous_knowledge :: "path \<Rightarrow> 'f world \<Rightarrow> py_error + 'f pyval" where
  "load_previous_knowledge repo_path w =
     (case files w repo_path of
        None \<Rightarrow> Inr (PDict [])
      | Some ZeroLength \<Rightarrow> Inr (PDict [])
      | Some OtherText \<Rightarrow> Inl JSONDecodeError
      | Some (JsonText doc) \<Rightarrow>
          (case py_subscript (json_loads doc) ''results'' of
             Inl e \<Rightarrow> Inl e
           | Inr results \<Rightarrow>
               (case py_len results of Inl e \<Rightarrow> Inl e | Inr _ \<Rightarrow> Inr results)))"

definition save_knowledge :: "path \<Rightarrow> (pykey \<times> 'f pyval) list \<Rightarrow> 'f world \<Rightarrow> 'f world" where
  "save_knowledge file_path data w =
     (let results = PDict [(KStr ''results'', PDict data)]
      in w\<lparr>files := (files w)(file_path \<mapsto> JsonText (json_dumps results)),
           save_log := save_log w @ [(file_path, data)]\<rparr>)"

subsection \<open>Extraction\<close>

text \<open>
  \<^verbatim>\<open>
  interactions = {comment.user.login: 0 for comment in comments}
  for comment in comments:
      interactions[comment.user.login] += len(comment.body.split(' '))
  \<close>
\<close>

definition count_comment ::
  "(string \<times> int) list \<Rightarrow> comment \<Rightarrow> py_error + (string \<times> int) list" where
  "count_comment interactions c =
     (case dict_get interactions (comment_login c) of
        Inl e \<Rightarrow> Inl e
      | Inr n \<Rightarrow>
          Inr (dict_set interactions (comment_login c)
                 (n + int (length (py_split CHR '' '' (comment_body c))))))"

definition get_interactions :: "comment list \<Rightarrow> py_error + (string \<times> int) list" where
  "get_interactions comments =
     (let interactions = foldl (\<lambda>d c. dict_set d (comment_login c) 0) [] comments
      in for_each count_comment comments interactions)"

definition interactions_val :: "(string \<times> int) list \<Rightarrow> 'f pyval" where
  "interactions_val d = PDict (map (\<lambda>(login, n). (KStr login, PInt n)) d)"

definition store_issue ::
  "(pykey \<times> 'f pyval) list \<Rightarrow> ('f::minus, 'x) issue_scheme \<Rightarrow> py_error + (pykey \<times> 'f pyval) list"
where
  "store_issue data issue =
     (if issue_pull_request issue \<noteq> None then Inr data
      else
        let created_at = issue_created_at issue;
            closed_at = issue_closed_at issue;
            time_to_close = closed_at - created_at;
            labels = issue_labels issue
        in case get_interactions (issue_comments issue) of
             Inl e \<Rightarrow> Inl e
           | Inr interactions \<Rightarrow>
               Inr (dict_set data (KInt (issue_number issue))
                 (PDict
                   [(KStr ''created_by'', PStr (issue_user_login issue)),
                    (KStr ''created_at'', PFloat created_at),
                    (KStr ''closed_by'', PStr (issue_closed_by_login issue)),
                    (KStr ''closed_at'', PFloat closed_at),
                    (KStr ''labels'', PList (map PStr (get_non_standalone_labels labels))),
                    (KStr ''time_to_close'', PFloat time_to_close),
                    (KStr ''interactions'', interactions_val interactions)])))"

definition extract_pullrequest_review_requests :: "('f, 'x) pull_scheme \<Rightarrow> string list" where
  "extract_pullrequest_review_requests pullrequest = fst (pull_review_requests pullrequest)"

definition extract_pullrequest_reviews ::
  "('f, 'x) pull_scheme \<Rightarrow> (pykey \<times> 'f pyval) list" where
  "extract_pullrequest_reviews pullrequest =
     foldl (\<lambda>results review.
              dict_set results (KInt (review_id review))
                (PDict
                  [(KStr ''author'', PStr (review_login review)),
                   (KStr ''words_count'',
                      PInt (int (length (py_split CHR '' '' (review_body review))))),
                   (KStr ''submitted_at'', PFloat (review_submitted_at review)),
                   (KStr ''state'', PStr (review_state review))]))
       [] (pull_reviews pullrequest)"

definition store_pullrequest ::
  "(pykey \<times> 'f pyval) list \<Rightarrow> ('f::minus, 'x) pull_scheme \<Rightarrow> py_error + (pykey \<times> 'f pyval) list"
where
  "store_pullrequest results pull =
     (let commits = pull_commits pull;
          created_at = pull_created_at pull;
          closed_at = pull_closed_at pull;
          merged_at = (case pull_merged_at pull of None \<Rightarrow> PNone | Some t \<Rightarrow> PFloat t);
          labels = pull_labels pull
      in case get_labeled_size labels of
           Inl e \<Rightarrow> Inl e
         | Inr labeled_size \<Rightarrow>
        (case get_referenced_issues pull of
           Inl e \<Rightarrow> Inl e
         | Inr referenced_issues \<Rightarrow>
        (case get_interactions (pull_issue_comments pull) of
           Inl e \<Rightarrow> Inl e
         | Inr interactions \<Rightarrow>
             Inr (dict_set results (KStr (py_str (pull_number pull)))
               (PDict
                 [(KStr ''size'', (case labeled_size of None \<Rightarrow> PNone | Some sz \<Rightarrow> PStr sz)),
                  (KStr ''labels'', PList (map PStr (get_non_standalone_labels labels))),
                  (KStr ''created_by'', PStr (pull_user_login pull)),
                  (KStr ''created_at'', PFloat created_at),
                  (KStr ''closed_at'', PFloat closed_at),
                  (KStr ''closed_by'', PStr (pull_closed_by_login pull)),
                  (KStr ''time_to_close'', PFloat (closed_at - created_at)),
                  (KStr ''merged_at'', merged_at),
                  (KStr ''commits_number'', PInt commits),
                  (KStr ''referenced_issues'', PList (map PStr referenced_issues)),
                  (KStr ''interactions'', interactions_val interactions),
                  (KStr ''reviews'', PDict (extract_pullrequest_reviews pull)),
                  (KStr ''requested_reviewers'',
                     PList (map PStr (extract_pullrequest_review_requests pull)))])))))"

subsection \<open>The two analyses\<close>

text \<open>
  Both analyses load the previous knowledge, keep the listed entities that are new, and
  return at once when there is none; otherwise they store each new entity into the
  loaded dictionary and save it. A loaded value that is not a dictionary has no
  \<open>keys()\<close>: \<open>get_only_new_entities\<close> raises \<open>AttributeError\<close> on it.
\<close>

definition analyse_issues ::
  "'f repository \<Rightarrow> path \<Rightarrow> ('f::minus) world \<Rightarrow> py_error + 'f world" where
  "analyse_issues project project_knowledge w =
     (let data_path = joinpath project_knowledge ''./issues.json''
      in case load_previous_knowledge data_path w of
           Inl e \<Rightarrow> Inl e
         | Inr (PDict data) \<Rightarrow>
             (let current_issues =
                    filter (\<lambda>issue. issue_pull_request issue = None) (closed_issues project)
              in case get_only_new_entities issue_number data current_issues of
                   Inl e \<Rightarrow> Inl e
                 | Inr new_issues \<Rightarrow>
                     if length new_issues = 0 then Inr w
                     else (case for_each store_issue new_issues data of
                             Inl e \<Rightarrow> Inl e
                           | Inr data' \<Rightarrow> Inr (save_knowledge data_path data' w)))
         | Inr _ \<Rightarrow> Inl AttributeError)"

definition analyse_pullrequests ::
  "'f repository \<Rightarrow> path \<Rightarrow> ('f::minus) world \<Rightarrow> py_error + 'f world" where
  "analyse_pullrequests project project_knowledge w =
     (let pulls_data_path = joinpath project_knowledge ''./pull_requests.json''
      in case load_previous_knowledge pulls_data_path w of
           Inl e \<Rightarrow> Inl e
         | Inr (PDict prev_pulls) \<Rightarrow>
             (let current_pulls = closed_pulls project
              in case get_only_new_entities pull_number prev_pulls current_pulls of
                   Inl e \<Rightarrow> Inl e
                 | Inr new_pulls \<Rightarrow>
                     if length new_pulls = 0 then Inr w
                     else (case for_each store_pullrequest new_pulls prev_pulls of
                             Inl e \<Rightarrow> Inl e
                           | Inr prev_pulls' \<Rightarrow>
                               Inr (save_knowledge pulls_data_path prev_pulls' w)))
         | Inr _ \<Rightarrow> Inl AttributeError)"

section \<open>srcopsmetrics/storage.py\<close>

subsection \<open>Names in the object store\<close>

text \<open>
  \<open>os.path.relpath(file_path)\<close>: both the path and the working directory are made
  absolute and normal (\<open>..\<close> removes the part before it, and is dropped at the root);
  the result climbs from the working directory to the common prefix and descends to the
  path. \<open>''sep''.join(xs)\<close> is \<open>py_join\<close>.
\<close>

definition normpath :: "string list \<Rightarrow> string list" where
  "normpath comps = foldl (\<lambda>new_comps comp.
      if comp = ''..'' then butlast new_comps else new_comps @ [comp]) [] comps"

definition abs_components :: "string list \<Rightarrow> path \<Rightarrow> string list" where
  "abs_components wd p =
     normpath (case p of [] \<Rightarrow> wd | c # cs \<Rightarrow> if c = ''/'' then cs else wd @ p)"

fun commonprefix :: "'a list \<Rightarrow> 'a list \<Rightarrow> 'a list" where
  "commonprefix (x # xs) (y # ys) = (if x = y then x # commonprefix xs ys else [])"
| "commonprefix _ _ = []"

fun py_join :: "string \<Rightarrow> string list \<Rightarrow> string" where
  "py_join sep [] = []"
| "py_join sep [x] = x"
| "py_join sep (x # y # ys) = x @ sep @ py_join sep (y # ys)"

definition relpath :: "string list \<Rightarrow> path \<Rightarrow> string" where
  "relpath wd p =
     (let start_list = normpath wd;
          path_list = abs_components wd p;
          i = length (commonprefix start_list path_list);
          rel_list = replicate (length start_list - i) ''..'' @ drop i path_list
      in if rel_list = [] then ''.'' else py_join ''/'' rel_list)"

text \<open>\<^verbatim>\<open>ceph_filename = os.path.relpath(file_path).replace("./", "")\<close>\<close>

definition ceph_filename :: "'f world \<Rightarrow> path \<Rightarrow> string" where
  "ceph_filename w file_path = py_remove ''./'' (relpath (cwd w) file_path)"

subsection \<open>The object store\<close>

text \<open>
  The store keeps one JSON document under each name. \<open>store_document\<close> replaces the
  document of a name, \<open>retrieve_document\<close> returns the document of a name as a value
  and raises \<open>NotFoundError\<close> when the name has none.
\<close>

definition store_document :: "'f pyval \<Rightarrow> string \<Rightarrow> 'f world \<Rightarrow> 'f world" where
  "store_document document document_id w =
     w\<lparr>ceph := (ceph w)(document_id \<mapsto> json_dumps document)\<rparr>"

definition retrieve_document :: "string \<Rightarrow> 'f world \<Rightarrow> py_error + 'f pyval" where
  "retrieve_document document_id w =
     (case ceph w document_id of
        None \<Rightarrow> Inl NotFoundError
      | Some doc \<Rightarrow> Inr (json_loads doc))"

subsection \<open>KnowledgeStorage\<close>

text \<open>The attribute \<open>is_local\<close> of the object is the first argument of each method.\<close>

definition FILENAME_ENTITY :: "(string \<times> string) list" where
  "FILENAME_ENTITY = [(''Issue'', ''issues''), (''PullRequest'', ''pull_requests'')]"

definition KnowledgeStorage_save_knowledge ::
  "bool \<Rightarrow> path \<Rightarrow> (pykey \<times> 'f pyval) list \<Rightarrow> 'f world \<Rightarrow> 'f world" where
  "KnowledgeStorage_save_knowledge is_local file_path data w =
     (let results = PDict [(KStr ''results'', PDict data)];
          w' = (if \<not> is_local then store_document results (ceph_filename w file_path) w
                else w\<lparr>files := (files w)(file_path \<mapsto> JsonText (json_dumps results))\<rparr>)
      in w'\<lparr>save_log := save_log w' @ [(file_path, data)]\<rparr>)"

text \<open>\<open>load_locally\<close> and \<open>load_remotely\<close> return \<open>None\<close> (\<open>PNone\<close>) when there is
  nothing to load.\<close>

definition load_locally :: "path \<Rightarrow> 'f world \<Rightarrow> py_error + 'f pyval" where
  "load_locally file_path w =
     (case files w file_path of
        None \<Rightarrow> Inr PNone
      | Some ZeroLength \<Rightarrow> Inr PNone
      | Some OtherText \<Rightarrow> Inl JSONDecodeError
      | Some (JsonText doc) \<Rightarrow> py_subscript (json_loads doc) ''results'')"

text \<open>
  \<^verbatim>\<open>
  try:
      return self.get_ceph_store().retrieve_document(ceph_filename)["results"]
  except NotFoundError:
      _LOGGER.debug(...)
  \<close>
\<close>

definition load_remotely :: "path \<Rightarrow> 'f world \<Rightarrow> py_error + 'f pyval" where
  "load_remotely file_path w =
     (let ceph_filename = ceph_filename w file_path
      in case (case retrieve_document ceph_filename w of
                 Inl e \<Rightarrow> Inl e
               | Inr document \<Rightarrow> py_subscript document ''results'') of
           Inr results \<Rightarrow> Inr results
         | Inl e \<Rightarrow> if e = NotFoundError then Inr PNone else Inl e)"

text \<open>The path that \<open>load_previous_knowledge\<close> computes when it is given none:
  \<^verbatim>\<open>
  pwd = Path.cwd().joinpath("./srcopsmetrics/bot_knowledge")
  project_path = pwd.joinpath("./" + project_name)
  file_path = project_path.joinpath("./" + filename + ".json")
  \<close>
\<close>

definition default_knowledge_path :: "'f world \<Rightarrow> string \<Rightarrow> string \<Rightarrow> path" where
  "default_knowledge_path w project_name filename =
     (let pwd = joinpath (''/'' # cwd w) ''./srcopsmetrics/bot_knowledge'';
          project_path = joinpath pwd (''./'' @ project_name)
      in joinpath project_path (''./'' @ filename @ ''.json''))"

definition KnowledgeStorage_load_previous_knowledge ::
  "bool \<Rightarrow> string \<Rightarrow> path option \<Rightarrow> string \<Rightarrow> 'f world \<Rightarrow> py_error + 'f pyval" where
  "KnowledgeStorage_load_previous_knowledge is_local project_name file_path knowledge_type w =
     (case dict_get FILENAME_ENTITY knowledge_type of
        Inl e \<Rightarrow> Inl e
      | Inr filename \<Rightarrow>
          let file_path =
                (case file_path of
                   Some p \<Rightarrow> p
                 | None \<Rightarrow> default_knowledge_path w project_name filename)
          in case (if \<not> is_local then load_remotely file_path w
                   else load_locally file_path w) of
               Inl e \<Rightarrow> Inl e
             | Inr results \<Rightarrow>
                 if results = PNone then Inr (PDict [])
                 else (case py_len results of Inl e \<Rightarrow> Inl e | Inr _ \<Rightarrow> Inr results))"

section \<open>Reference functions for the claims\<close>

text \<open>
  The functions of this section are not translations of the source: each one writes
  down what a claim says, to be compared with the translated function.
\<close>

text \<open>
  The references of a tokenised comment: each token that is a keyword and is followed by
  a token beginning with \<open>https\<close> contributes the last \<open>/\<close>-segment of that
  following token. \<open>is_keyword\<close> decides which tokens count as keywords.
\<close>

fun following_references :: "(string \<Rightarrow> bool) \<Rightarrow> string list \<Rightarrow> string list" where
  "following_references is_keyword (word # next_word # rest) =
     (if is_keyword word \<and> startswith next_word ''https''
      then [last (py_split CHR ''/'' next_word)] else [])
     @ following_references is_keyword (next_word # rest)"
| "following_references is_keyword _ = []"

definition referenced_by_text :: "(string \<Rightarrow> bool) \<Rightarrow> string list \<Rightarrow> string list" where
  "referenced_by_text is_keyword bodies =
     concat (map (\<lambda>body. following_references is_keyword (py_split CHR '' '' body)) bodies)"

text \<open>A token is a keyword once all its colons are removed.\<close>

definition keyword_without_colons :: "string \<Rightarrow> bool" where
  "keyword_without_colons word \<longleftrightarrow> filter (\<lambda>c. c \<noteq> CHR '':'') word \<in> ISSUE_KEYWORDS"

text \<open>A token is a keyword once its trailing colons are stripped.\<close>

definition strip_trailing_colons :: "string \<Rightarrow> string" where
  "strip_trailing_colons word = rev (dropWhile (\<lambda>c. c = CHR '':'') (rev word))"

definition keyword_before_colons :: "string \<Rightarrow> bool" where
  "keyword_before_colons word \<longleftrightarrow> strip_trailing_colons word \<in> ISSUE_KEYWORDS"



text \<open>The number of pieces of a comment's body between single spaces, and the total of
  a count over the comments of one author.\<close>

definition space_separated_count :: "comment \<Rightarrow> int" where
  "space_separated_count c = int (length (py_split CHR '' '' (comment_body c)))"

definition total_count :: "(comment \<Rightarrow> int) \<Rightarrow> comment list \<Rightarrow> string \<Rightarrow> int" where
  "total_count count comments author =
     sum_list (map count (filter (\<lambda>c. comment_login c = author) comments))"

text \<open>The number that a string of digits denotes, read from the left with a carry.\<close>

definition digits_value :: "nat \<Rightarrow> string \<Rightarrow> nat" where
  "digits_value acc s = foldl (\<lambda>a c. 10 * a + the (digit_val c)) acc s"

text \<open>
  A value is JSON-compatible when every dictionary in it has string keys only. (The
  keys of a dictionary are distinct.)
\<close>

definition is_str_key :: "pykey \<Rightarrow> bool" where
  "is_str_key k = (case k of KStr _ \<Rightarrow> True | KInt _ \<Rightarrow> False)"

primrec json_compatible :: "'f pyval \<Rightarrow> bool" where
  "json_compatible PNone = True"
| "json_compatible (PBool b) = True"
| "json_compatible (PInt n) = True"
| "json_compatible (PFloat x) = True"
| "json_compatible (PStr s) = True"
| "json_compatible (PList xs) = list_all (\<lambda>b. b) (map json_compatible xs)"
| "json_compatible (PDict d) =
     (distinct (map fst d) \<and>
      list_all (\<lambda>(k, b). is_str_key k \<and> b) (map (map_prod (\<lambda>k. k) json_compatible) d))"

section \<open>Example data\<close>

text \<open>A closed pull request with two comments, one review and one requested reviewer;
  its time stamps are integers here.\<close>

definition example_pull :: "int pull" where
  "example_pull =
     \<lparr>pull_number = 7, pull_commits = 2, pull_user_login = ''alice'',
      pull_created_at = 100, pull_closed_at = 160, pull_closed_by_login = ''bob'',
      pull_merged_at = Some 160, pull_labels = [''bug'', ''size/L''],
      pull_issue_comments =
        [\<lparr>comment_login = ''bob'', comment_body = ''this closes: https://x/y/42''\<rparr>,
         \<lparr>comment_login = ''alice'', comment_body = ''ok''\<rparr>],
      pull_reviews =
        [\<lparr>review_id = 900, review_login = ''bob'', review_body = ''looks good'',
          review_submitted_at = 150, review_state = ''APPROVED''\<rparr>],
      pull_review_requests = ([''carol''], [])\<rparr>"

text \<open>A closed issue, a pull request that the listing of issues also shows, a
  repository with both, and a state whose files already know the issue 1 and the pull request 5.\<close>

definition example_issue :: "int issue" where
  "example_issue =
     \<lparr>issue_number = 3, issue_pull_request = None, issue_user_login = ''alice'',
      issue_created_at = 10, issue_closed_at = 50, issue_closed_by_login = ''bob'',
      issue_labels = [''bug'', ''size''],
      issue_comments =
        [\<lparr>comment_login = ''A'', comment_body = ''hi there''\<rparr>,
         \<lparr>comment_login = ''B'', comment_body = ''ok''\<rparr>]\<rparr>"

definition example_repository :: "int repository" where
  "example_repository =
     \<lparr>closed_issues =
        [example_issue\<lparr>issue_number := 1\<rparr>,
         example_issue,
         example_issue\<lparr>issue_number := 7, issue_pull_request := Some ''https://x/y/pull/7''\<rparr>],
      closed_pulls = [example_pull]\<rparr>"

definition example_world :: "int world" where
  "example_world =
     \<lparr>files = [[''kb'', ''issues.json''] \<mapsto>
                 JsonText (JObject [(''results'', JObject [(''1'', JObject [])])]),
               [''kb'', ''pull_requests.json''] \<mapsto>
                 JsonText (JObject [(''results'', JObject [(''5'', JObject [])])])],
      ceph = Map.empty,
      cwd = [''home'', ''bot''],
      save_log = []\<rparr>"

section \<open>Facts about the built-ins\<close>

lemma split_acc_unfold:
  "split_acc sep cur s =
     (rev cur @ takeWhile (\<lambda>c. c \<noteq> sep) s) #
       (case dropWhile (\<lambda>c. c \<noteq> sep) s of [] \<Rightarrow> [] | _ # r \<Rightarrow> split_acc sep [] r)"
  by (induction s arbitrary: cur) auto

lemma py_split_unfold:
  "py_split sep s =
     takeWhile (\<lambda>c. c \<noteq> sep) s #
       (case dropWhile (\<lambda>c. c \<noteq> sep) s of [] \<Rightarrow> [] | _ # r \<Rightarrow> py_split sep r)"
  unfolding py_split_def by (subst split_acc_unfold) simp

lemma py_split_not_Nil: "py_split sep s \<noteq> []"
  by (subst py_split_unfold) simp

lemma py_split_length_one:
  assumes "sep \<notin> set s"
  shows "py_split sep s = [s]"
proof -
  have "split_acc sep cur s = [rev cur @ s]" for cur
    using assms by (induction s arbitrary: cur) auto
  then show ?thesis
    by (simp add: py_split_def)
qed

lemma py_split_second:
  assumes "sep \<in> set s"
  shows "py_index (py_split sep s) 1 =
           Inr (takeWhile (\<lambda>c. c \<noteq> sep) (tl (dropWhile (\<lambda>c. c \<noteq> sep) s)))"
proof -
  from assms obtain r where r: "dropWhile (\<lambda>c. c \<noteq> sep) s = sep # r"
    by (metis (mono_tags, lifting) dropWhile_eq_Nil_conv hd_dropWhile list.exhaust_sel)
  have "py_split sep s = takeWhile (\<lambda>c. c \<noteq> sep) s # py_split sep r"
    by (subst py_split_unfold) (simp add: r)
  moreover have "py_split sep r = takeWhile (\<lambda>c. c \<noteq> sep) r #
       (case dropWhile (\<lambda>c. c \<noteq> sep) r of [] \<Rightarrow> [] | _ # r' \<Rightarrow> py_split sep r')"
    by (rule py_split_unfold)
  ultimately show ?thesis
    by (simp add: py_index_def r)
qed

section \<open>Size labels\<close>

lemma get_labeled_size_find:
  "get_labeled_size labels =
     (case find (\<lambda>label. startswith label ''size'') labels of
        None \<Rightarrow> Inr None
      | Some label \<Rightarrow>
          if CHR ''/'' \<in> set label
          then Inr (Some (takeWhile (\<lambda>c. c \<noteq> CHR ''/'')
                            (tl (dropWhile (\<lambda>c. c \<noteq> CHR ''/'') label))))
          else Inl IndexError)"
proof (induction labels)
  case Nil
  show ?case by simp
next
  case (Cons label labels)
  show ?case
  proof (cases "startswith label ''size''")
    case False
    with Cons show ?thesis by simp
  next
    case True
    show ?thesis
    proof (cases "CHR ''/'' \<in> set label")
      case True
      with \<open>startswith label ''size''\<close> show ?thesis
        by (simp add: py_split_second)
    next
      case False
      then have "py_split CHR ''/'' label = [label]"
        by (rule py_split_length_one)
      with False \<open>startswith label ''size''\<close> show ?thesis
        by (simp add: py_index_def)
    qed
  qed
qed

text \<open>
  Claim C10. \<open>get_labeled_size\<close> looks at the first label that starts with \<open>size\<close>
  only. When there is none it returns \<open>None\<close>. When that label holds a \<open>/\<close> it
  returns the segment that follows the first \<open>/\<close> (up to the next \<open>/\<close> or the end).
  When that label holds no \<open>/\<close> the access \<open>[1]\<close> raises \<open>IndexError\<close>, as for the
  label \<open>size\<close> itself; so the function returns exactly when the first such label,
  if any, holds a \<open>/\<close>.
\<close>

theorem get_labeled_size_first_size_label:
  "get_labeled_size labels =
     (case find (\<lambda>label. startswith label ''size'') labels of
        None \<Rightarrow> Inr None
      | Some label \<Rightarrow>
          if CHR ''/'' \<in> set label
          then Inr (Some (takeWhile (\<lambda>c. c \<noteq> CHR ''/'')
                            (tl (dropWhile (\<lambda>c. c \<noteq> CHR ''/'') label))))
          else Inl IndexError)
   \<and> get_labeled_size [''size''] = Inl IndexError
   \<and> get_labeled_size [''bug'', ''size'', ''size/L''] = Inl IndexError
   \<and> get_labeled_size [''size/XS/extra''] = Inr (Some ''XS'')"
proof -
  have "get_labeled_size [''size''] = Inl IndexError"
    and "get_labeled_size [''bug'', ''size'', ''size/L''] = Inl IndexError"
    and "get_labeled_size [''size/XS/extra''] = Inr (Some ''XS'')"
    by (simp_all add: startswith_def py_split_def py_index_def)
  with get_labeled_size_find [of labels] show ?thesis
    by blast
qed

theorem get_labeled_size_first_size_label_witness:
  "get_labeled_size [''kind/bug'', ''size/M'', ''size''] = Inr (Some ''M'')"
  using get_labeled_size_first_size_label [of "[''kind/bug'', ''size/M'', ''size'']"]
  by (simp add: startswith_def)

text \<open>
  Claim C2, evaluated on the code. The labels \<open>bug\<close>, \<open>size/L\<close> give the size \<open>L\<close>
  and the label \<open>bug\<close> alone gives no size, as the claim says. The generic label list
  of \<open>bug\<close>, \<open>size/L\<close> still holds \<open>size/L\<close>: \<open>get_non_standalone_labels\<close> drops a
  label only when it is equal to \<open>size\<close>, which a size label \<open>size/<SIZE>\<close> never is.
\<close>

theorem size_label_stays_in_label_list:
  "get_labeled_size [''bug'', ''size/L''] = Inr (Some ''L'')
   \<and> get_labeled_size [''bug''] = Inr None
   \<and> get_non_standalone_labels [''bug'', ''size/L''] = [''bug'', ''size/L'']
   \<and> get_non_standalone_labels labels = filter (\<lambda>label. label \<noteq> ''size'') labels"
  by (simp add: startswith_def py_split_def py_index_def get_non_standalone_labels_def
        STANDALONE_LABELS_def)

section \<open>The scanner of references\<close>

lemma py_remove_char: "py_remove [c] s = filter (\<lambda>x. x \<noteq> c) s"
  by (induction s) (auto simp: startswith_def)

lemma py_index_last: "xs \<noteq> [] \<Longrightarrow> py_index xs (- 1) = Inr (last xs)"
  by (cases xs rule: rev_cases) (auto simp: py_index_def nth_append)

lemma py_index_next:
  "py_index (pre @ w # rest) (int (length pre) + 1) =
     (case rest of [] \<Rightarrow> Inl IndexError | n # _ \<Rightarrow> Inr n)"
  by (cases rest) (auto simp: py_index_def nth_append nat_add_distrib)

lemma referenced_issue_number_next:
  "referenced_issue_number (pre @ w # rest) (length pre) =
     (case rest of
        [] \<Rightarrow> Inl IndexError
      | n # _ \<Rightarrow> if startswith n ''https'' then Inr (last (py_split CHR ''/'' n))
                 else Inl AssertionError)"
  unfolding referenced_issue_number_def
  by (simp add: py_index_next py_index_last py_split_not_Nil split: list.split)

lemma scan_words:
  "for_each (scan_word (pre @ suf)) (enumerate (length pre) suf) acc =
     Inr (acc @ following_references keyword_without_colons suf)"
proof (induction suf arbitrary: pre acc)
  case Nil
  show ?case by simp
next
  case (Cons w rest)
  have step: "scan_word (pre @ w # rest) acc (length pre, w) =
      Inr (acc @ (case rest of [] \<Rightarrow> []
                  | n # _ \<Rightarrow> if keyword_without_colons w \<and> startswith n ''https''
                             then [last (py_split CHR ''/'' n)] else []))"
    by (simp add: scan_word_def referenced_issue_number_next py_remove_char
          keyword_without_colons_def split: list.split)
  have "for_each (scan_word ((pre @ [w]) @ rest)) (enumerate (length (pre @ [w])) rest) acc' =
      Inr (acc' @ following_references keyword_without_colons rest)" for acc'
    by (rule Cons.IH)
  then have rest: "for_each (scan_word (pre @ w # rest)) (enumerate (Suc (length pre)) rest) acc' =
      Inr (acc' @ following_references keyword_without_colons rest)" for acc'
    by simp
  define found where "found = (case rest of [] \<Rightarrow> []
                  | n # _ \<Rightarrow> if keyword_without_colons w \<and> startswith n ''https''
                             then [last (py_split CHR ''/'' n)] else [])"
  have "for_each (scan_word (pre @ w # rest)) (enumerate (length pre) (w # rest)) acc =
      for_each (scan_word (pre @ w # rest)) (enumerate (Suc (length pre)) rest) (acc @ found)"
    by (simp add: step found_def)
  also have "\<dots> = Inr ((acc @ found) @ following_references keyword_without_colons rest)"
    by (rule rest)
  finally have "for_each (scan_word (pre @ w # rest)) (enumerate (length pre) (w # rest)) acc =
      Inr (acc @ found @ following_references keyword_without_colons rest)"
    by simp
  moreover have "found @ following_references keyword_without_colons rest =
      following_references keyword_without_colons (w # rest)"
    by (cases rest) (simp_all add: found_def)
  ultimately show ?case
    by simp
qed

lemma scan_comment_eq:
  "scan_comment acc body =
     Inr (acc @ following_references keyword_without_colons (py_split CHR '' '' body))"
  using scan_words [of "[]" "py_split CHR '' '' body" acc]
  by (simp add: scan_comment_def)

lemma for_each_scan_comment:
  "for_each scan_comment bodies acc = Inr (acc @ referenced_by_text keyword_without_colons bodies)"
  by (induction bodies arbitrary: acc) (simp_all add: scan_comment_eq referenced_by_text_def)

text \<open>
  Claim C3, as the code has it. The scanner never raises. It returns, in the order of
  the comments and of the tokens, the last \<open>/\<close>-segment of the token that follows
  each keyword token, when that following token is there and begins with \<open>https\<close>;
  a keyword followed by nothing or by another token adds nothing, and scanning goes
  on. A token is a keyword when it is one of the nine closing keywords after
  \<^emph>\<open>all\<close> its colons have been removed. Nothing is deduplicated.
\<close>

theorem get_referenced_issues_follows_keywords:
  "get_referenced_issues pull_request =
     Inr (referenced_by_text keyword_without_colons
            (map comment_body (pull_issue_comments pull_request)))
   \<and> scan_bodies bodies = Inr (referenced_by_text keyword_without_colons bodies)
   \<and> scan_bodies [''this closes: https://x/y/42''] = Inr [''42'']
   \<and> scan_bodies [''fix coming soon''] = Inr []
   \<and> scan_bodies [''fixes https://x/y/7 and closes https://x/y/9''] = Inr [''7'', ''9'']
   \<and> scan_bodies [''fixes https://x/y/7'', ''closes'', ''fixed https://x/y/7''] =
         Inr [''7'', ''7'']"
proof -
  have all: "scan_bodies bs = Inr (referenced_by_text keyword_without_colons bs)" for bs
    by (simp add: scan_bodies_def for_each_scan_comment)
  have "referenced_by_text keyword_without_colons [''this closes: https://x/y/42''] = [''42'']"
    by (simp add: referenced_by_text_def keyword_without_colons_def ISSUE_KEYWORDS_def
          py_split_def startswith_def)
  moreover have "referenced_by_text keyword_without_colons [''fix coming soon''] = []"
    by (simp add: referenced_by_text_def keyword_without_colons_def ISSUE_KEYWORDS_def
          py_split_def startswith_def)
  moreover have "referenced_by_text keyword_without_colons
      [''fixes https://x/y/7 and closes https://x/y/9''] = [''7'', ''9'']"
    by (simp add: referenced_by_text_def keyword_without_colons_def ISSUE_KEYWORDS_def
          py_split_def startswith_def)
  moreover have "referenced_by_text keyword_without_colons
      [''fixes https://x/y/7'', ''closes'', ''fixed https://x/y/7''] = [''7'', ''7'']"
    by (simp add: referenced_by_text_def keyword_without_colons_def ISSUE_KEYWORDS_def
          py_split_def startswith_def)
  ultimately show ?thesis
    by (simp add: all get_referenced_issues_def)
qed

theorem get_referenced_issues_follows_keywords_witness:
  "get_referenced_issues example_pull = Inr [''42'']"
proof -
  have "get_referenced_issues example_pull =
      Inr (referenced_by_text keyword_without_colons
             (map comment_body (pull_issue_comments example_pull)))"
    using get_referenced_issues_follows_keywords [of example_pull "[]"] by blast
  also have "\<dots> = Inr [''42'']"
    by (simp add: example_pull_def referenced_by_text_def keyword_without_colons_def
          ISSUE_KEYWORDS_def py_split_def startswith_def)
  finally show ?thesis .
qed

text \<open>
  Claim C3 as stated fails: in \<open>:fixes https://x/y/7\<close> the token \<open>:fixes\<close> is not a
  keyword once its trailing colons are stripped (it has none), so the claim gives no
  reference; the code removes the leading colon as well and returns \<open>7\<close>.
\<close>

theorem leading_colon_counterexample:
  "scan_bodies ['':fixes https://x/y/7''] = Inr [''7'']
   \<and> referenced_by_text keyword_before_colons ['':fixes https://x/y/7''] = []"
  by (simp add: scan_bodies_def scan_comment_def scan_word_def referenced_issue_number_def
        py_index_def enumerate_eq_zip upt_rec
        referenced_by_text_def keyword_before_colons_def strip_trailing_colons_def
        ISSUE_KEYWORDS_def py_split_def startswith_def)

section \<open>Interactions\<close>

lemma map_of_dict_set: "map_of (dict_set d k v) = (map_of d)(k \<mapsto> v)"
  by (simp add: dict_set_def update_conv')

lemma distinct_dict_set: "distinct (map fst d) \<Longrightarrow> distinct (map fst (dict_set d k v))"
  by (simp add: dict_set_def distinct_update)

lemma zero_interactions:
  "map_of (foldl (\<lambda>d c. dict_set d (comment_login c) (0::int)) d0 cs) a =
     (if a \<in> comment_login ` set cs then Some 0 else map_of d0 a)"
  by (induction cs arbitrary: d0) (auto simp: map_of_dict_set)

lemma zero_interactions_distinct:
  "distinct (map fst d0) \<Longrightarrow>
   distinct (map fst (foldl (\<lambda>d c. dict_set d (comment_login c) (0::int)) d0 cs))"
  by (induction cs arbitrary: d0) (auto simp: distinct_dict_set)

lemma for_each_count_comment:
  assumes "comment_login ` set cs \<subseteq> dom (map_of d)" and "distinct (map fst d)"
  shows "\<exists>d'. for_each count_comment cs d = Inr d' \<and> distinct (map fst d') \<and>
           (\<forall>a. map_of d' a =
              map_option (\<lambda>n. n + total_count space_separated_count cs a) (map_of d a))"
  using assms
proof (induction cs arbitrary: d)
  case Nil
  then show ?case by (simp add: total_count_def option.map_ident)
next
  case (Cons c cs)
  from Cons.prems obtain n where n: "map_of d (comment_login c) = Some n"
    by auto
  define d1 where "d1 = dict_set d (comment_login c) (n + space_separated_count c)"
  have step: "count_comment d c = Inr d1"
    by (simp add: count_comment_def dict_get_def n d1_def space_separated_count_def)
  have "comment_login ` set cs \<subseteq> dom (map_of d1)" and "distinct (map fst d1)"
    using Cons.prems by (auto simp: d1_def map_of_dict_set distinct_dict_set)
  from Cons.IH [OF this] obtain d' where d':
    "for_each count_comment cs d1 = Inr d'" "distinct (map fst d')"
    "\<And>a. map_of d' a = map_option (\<lambda>n. n + total_count space_separated_count cs a) (map_of d1 a)"
    by blast
  have "map_of d' a =
      map_option (\<lambda>n. n + total_count space_separated_count (c # cs) a) (map_of d a)" for a
    by (cases "comment_login c = a") (auto simp: d'(3) d1_def map_of_dict_set n total_count_def)
  with d'(1,2) step show ?case
    by simp
qed

lemma get_interactions_mapping:
  "\<exists>interactions.
     get_interactions comments = Inr interactions \<and>
     distinct (map fst interactions) \<and>
     (\<forall>author. map_of interactions author =
        (if author \<in> comment_login ` set comments
         then Some (total_count space_separated_count comments author) else None))"
proof -
  define d0 where "d0 = foldl (\<lambda>d c. dict_set d (comment_login c) (0::int)) [] comments"
  have m0: "map_of d0 a = (if a \<in> comment_login ` set comments then Some 0 else None)" for a
    by (simp add: d0_def zero_interactions)
  have "distinct (map fst d0)"
    unfolding d0_def by (rule zero_interactions_distinct) simp
  moreover have "comment_login ` set comments \<subseteq> dom (map_of d0)"
    by (auto simp: m0 dom_def)
  ultimately obtain d' where d': "for_each count_comment comments d0 = Inr d'"
    "distinct (map fst d')"
    "\<And>a. map_of d' a =
       map_option (\<lambda>n. n + total_count space_separated_count comments a) (map_of d0 a)"
    using for_each_count_comment [of comments d0] by blast
  have "get_interactions comments = Inr d'"
    by (simp add: get_interactions_def d0_def [symmetric] d'(1))
  moreover have "map_of d' a =
        (if a \<in> comment_login ` set comments
         then Some (total_count space_separated_count comments a) else None)" for a
    by (simp add: d'(3) m0)
  ultimately show ?thesis
    using d'(2) by blast
qed




section \<open>Integers and their decimal text\<close>

lemma digit_val_digit: "d < 10 \<Longrightarrow> digit_val (digit_chars ! d) = Some d"
proof -
  assume "d < 10"
  then have "d = 0 \<or> d = 1 \<or> d = 2 \<or> d = 3 \<or> d = 4 \<or> d = 5 \<or> d = 6 \<or> d = 7 \<or> d = 8 \<or> d = 9"
    by arith
  then show ?thesis
    by (elim disjE) (simp_all add: digit_val_def digit_chars_def upt_rec)
qed

lemma digit_val_Some_cases:
  "digit_val c = Some d \<Longrightarrow> c \<in> set digit_chars"
  by (auto simp: digit_val_def digit_chars_def upt_rec split: if_splits)

lemma digit_not_special:
  assumes "digit_val c = Some d"
  shows "\<not> is_space c" and "c \<noteq> CHR ''-''" and "c \<noteq> CHR ''+''"
  using digit_val_Some_cases [OF assms]
  by (auto simp: digit_chars_def is_space_def)

lemma parse_digits_all_digits:
  "s \<noteq> [] \<Longrightarrow> \<forall>c \<in> set s. digit_val c \<noteq> None \<Longrightarrow>
   parse_digits need acc s = Some (digits_value acc s)"
proof (induction s arbitrary: need acc)
  case Nil
  then show ?case by simp
next
  case (Cons c s)
  then obtain d where d: "digit_val c = Some d" by auto
  show ?case
  proof (cases s)
    case Nil
    then show ?thesis by (simp add: d digits_value_def)
  next
    case (Cons c' s')
    with Cons.IH [of False "10 * acc + d"] Cons.prems show ?thesis
      by (simp add: d digits_value_def)
  qed
qed

lemma nat_digits_props:
  "nat_digits n \<noteq> [] \<and> (\<forall>c \<in> set (nat_digits n). digit_val c \<noteq> None) \<and>
   digits_value 0 (nat_digits n) = n"
proof (induction n rule: nat_digits.induct)
  case (1 n)
  show ?case
  proof (cases "n < 10")
    case True
    then show ?thesis
      by (subst (1 2 3) nat_digits.simps) (simp add: digit_val_digit digits_value_def)
  next
    case False
    with 1 have IH: "nat_digits (n div 10) \<noteq> []"
      "\<forall>c \<in> set (nat_digits (n div 10)). digit_val c \<noteq> None"
      "digits_value 0 (nat_digits (n div 10)) = n div 10"
      by simp_all
    have eq: "nat_digits n = nat_digits (n div 10) @ [digit_chars ! (n mod 10)]"
      using False by (subst nat_digits.simps) simp
    have dv: "digit_val (digit_chars ! (n mod 10)) = Some (n mod 10)"
      by (rule digit_val_digit) simp
    show ?thesis
      using IH dv by (auto simp: eq digits_value_def)
  qed
qed

lemma parse_nat_digits: "parse_digits need acc (nat_digits n) = Some (digits_value acc (nat_digits n))"
  using nat_digits_props [of n] by (intro parse_digits_all_digits) auto

lemma py_strip_id:
  assumes "s \<noteq> []" and "\<not> is_space (hd s)" and "\<not> is_space (last s)"
  shows "py_strip s = s"
proof -
  from assms have "dropWhile is_space s = s"
    by (cases s) auto
  moreover from assms have "dropWhile is_space (rev s) = rev s"
    by (cases s rule: rev_cases) auto
  ultimately show ?thesis
    by (simp add: py_strip_def)
qed

lemma nat_digits_ends:
  "\<not> is_space (hd (nat_digits n))" "\<not> is_space (last (nat_digits n))"
  "hd (nat_digits n) \<noteq> CHR ''-''" "hd (nat_digits n) \<noteq> CHR ''+''"
proof -
  from nat_digits_props [of n] have ne: "nat_digits n \<noteq> []"
    and all: "\<forall>c \<in> set (nat_digits n). digit_val c \<noteq> None" by auto
  from ne have "hd (nat_digits n) \<in> set (nat_digits n)" "last (nat_digits n) \<in> set (nat_digits n)"
    by auto
  with all obtain d d' where "digit_val (hd (nat_digits n)) = Some d"
    "digit_val (last (nat_digits n)) = Some d'" by blast
  then show "\<not> is_space (hd (nat_digits n))" "\<not> is_space (last (nat_digits n))"
    "hd (nat_digits n) \<noteq> CHR ''-''" "hd (nat_digits n) \<noteq> CHR ''+''"
    by (auto dest: digit_not_special)
qed

lemma py_int_py_str: "py_int (py_str n) = Inr n"
proof (cases "n < 0")
  case True
  have ne: "nat_digits (nat (- n)) \<noteq> []"
    using nat_digits_props by blast
  have "py_strip (CHR ''-'' # nat_digits (nat (- n))) = CHR ''-'' # nat_digits (nat (- n))"
    using nat_digits_ends(2) [of "nat (- n)"] ne
    by (intro py_strip_id) (simp_all add: is_space_def)
  moreover have "parse_digits True 0 (nat_digits (nat (- n))) = Some (nat (- n))"
    using nat_digits_props [of "nat (- n)"] by (simp add: parse_nat_digits)
  ultimately show ?thesis
    using True by (simp add: py_int_def py_str_def)
next
  case False
  obtain c cs where ccs: "nat_digits (nat n) = c # cs"
    using nat_digits_props [of "nat n"] by (cases "nat_digits (nat n)") auto
  have "py_strip (nat_digits (nat n)) = nat_digits (nat n)"
    using nat_digits_ends(1,2) [of "nat n"] ccs by (intro py_strip_id) simp_all
  moreover have "parse_digits True 0 (nat_digits (nat n)) = Some (nat n)"
    using nat_digits_props [of "nat n"] by (simp add: parse_nat_digits)
  moreover have "c \<noteq> CHR ''-''" "c \<noteq> CHR ''+''"
    using nat_digits_ends(3,4) [of "nat n"] ccs by simp_all
  ultimately show ?thesis
    using False ccs by (simp add: py_int_def py_str_def)
qed

section \<open>The new entities\<close>

lemma get_only_new_entities_filter:
  assumes "map_err py_int_key (map fst old_data) = Inr P"
  shows "get_only_new_entities number old_data new_data =
           Inr (filter (\<lambda>x. number x \<notin> set P) new_data)"
proof -
  have "filter (\<lambda>x. number x \<in> set (map number new_data) - set P) new_data =
        filter (\<lambda>x. number x \<notin> set P) new_data"
    by (rule filter_cong) auto
  with assms show ?thesis
    by (simp add: get_only_new_entities_def)
qed




section \<open>Dictionaries and JSON documents\<close>

lemma dict_set_new: "k \<notin> fst ` set d \<Longrightarrow> dict_set d k v = d @ [(k, v)]"
  unfolding dict_set_def by (induction d) auto

lemma fst_set_dict_set: "fst ` set (dict_set d k v) = insert k (fst ` set d)"
  by (simp add: dict_set_def dom_update)

lemma foldl_dict_set_distinct:
  "distinct (map fst (d0 @ kvs)) \<Longrightarrow> foldl (\<lambda>d (k, v). dict_set d k v) d0 kvs = d0 @ kvs"
proof (induction kvs arbitrary: d0)
  case Nil
  show ?case by simp
next
  case (Cons kv kvs)
  obtain k v where kv: "kv = (k, v)" by (cases kv)
  from Cons.prems have "k \<notin> fst ` set d0" by (auto simp: kv)
  then have "dict_set d0 k v = d0 @ [(k, v)]" by (rule dict_set_new)
  moreover from Cons.prems have "distinct (map fst ((d0 @ [(k, v)]) @ kvs))" by (simp add: kv)
  ultimately show ?case
    using Cons.IH [of "d0 @ [(k, v)]"] by (simp add: kv)
qed

lemma dict_of_pairs_distinct: "distinct (map fst kvs) \<Longrightarrow> dict_of_pairs kvs = kvs"
  using foldl_dict_set_distinct [of "[]" kvs] by (simp add: dict_of_pairs_def)

lemma fst_set_foldl_dict_set:
  "fst ` set (foldl (\<lambda>d (k, v). dict_set d k v) d0 kvs) = fst ` set d0 \<union> fst ` set kvs"
proof (induction kvs arbitrary: d0)
  case Nil
  show ?case by simp
next
  case (Cons kv kvs)
  have "fst ` set (foldl (\<lambda>d (k, v). dict_set d k v) (dict_set d0 (fst kv) (snd kv)) kvs) =
      fst ` set (dict_set d0 (fst kv) (snd kv)) \<union> fst ` set kvs"
    by (rule Cons.IH)
  also have "\<dots> = fst ` set d0 \<union> fst ` set (kv # kvs)"
    by (simp only: fst_set_dict_set list.set image_insert) blast
  finally show ?case
    by (simp add: case_prod_unfold)
qed

lemma fst_set_dict_of_pairs: "fst ` set (dict_of_pairs kvs) = fst ` set kvs"
  by (simp add: dict_of_pairs_def fst_set_foldl_dict_set)

lemma json_round_trip: "json_compatible v \<Longrightarrow> json_loads (json_dumps v) = v"
proof (induction v)
  case (PList xs)
  then have "map (\<lambda>x. json_loads (json_dumps x)) xs = xs"
    by (intro map_idI) (auto simp: list_all_iff)
  then show ?case by (simp add: comp_def)
next
  case (PDict d)
  have "map (map_prod KStr json_loads \<circ> map_prod json_key json_dumps) d = d"
  proof (rule map_idI)
    fix kv assume in_d: "kv \<in> set d"
    obtain k v where kv: "kv = (k, v)" by (cases kv)
    from PDict.prems in_d have "is_str_key k" and "json_compatible v"
      by (auto simp: list_all_iff kv)
    moreover from in_d have "json_compatible v \<Longrightarrow> json_loads (json_dumps v) = v"
      by (intro PDict.IH [of kv v]) (simp_all add: kv)
    ultimately show "(map_prod KStr json_loads \<circ> map_prod json_key json_dumps) kv = kv"
      by (cases k) (simp_all add: kv is_str_key_def json_key_def)
  qed
  moreover from PDict.prems have "distinct (map fst d)" by simp
  ultimately show ?case
    by (simp add: dict_of_pairs_distinct)
qed simp_all

lemma json_loads_keys:
  assumes "json_loads (json_dumps (PDict d)) = PDict d'"
  shows "fst ` set d' = (\<lambda>k. KStr (json_key k)) ` fst ` set d"
proof -
  from assms have "d' = dict_of_pairs (map (map_prod KStr json_loads \<circ> map_prod json_key json_dumps) d)"
    by simp
  then have "fst ` set d' = fst ` set (map (map_prod KStr json_loads \<circ> map_prod json_key json_dumps) d)"
    by (simp only: fst_set_dict_of_pairs)
  also have "\<dots> = (\<lambda>k. KStr (json_key k)) ` fst ` set d"
    by (simp add: image_image comp_def)
  finally show ?thesis .
qed

section \<open>The two analyses\<close>

lemma map_err_member:
  "map_err f xs = Inr ys \<Longrightarrow> x \<in> set xs \<Longrightarrow> \<exists>y \<in> set ys. f x = Inr y"
  by (induction xs arbitrary: ys) (auto split: sum.splits)

lemma get_only_new_entities_Inr:
  assumes "get_only_new_entities number old_data new_data = Inr new"
  obtains P where "map_err py_int_key (map fst old_data) = Inr P"
    and "new = filter (\<lambda>x. number x \<notin> set P) new_data"
proof -
  from assms obtain P where P: "map_err py_int_key (map fst old_data) = Inr P"
    by (auto simp: get_only_new_entities_def split: sum.splits)
  with assms get_only_new_entities_filter [OF P, of number new_data] that show ?thesis
    by simp
qed

lemma new_entities_fresh:
  assumes "get_only_new_entities number old_data new_data = Inr new" and "x \<in> set new"
  shows "KInt (number x) \<notin> fst ` set old_data"
    and "KStr (py_str (number x)) \<notin> fst ` set old_data"
proof -
  from assms(1) obtain P where P: "map_err py_int_key (map fst old_data) = Inr P"
    and new: "new = filter (\<lambda>x. number x \<notin> set P) new_data"
    by (rule get_only_new_entities_Inr)
  from assms(2) new have notin: "number x \<notin> set P" by simp
  have known: "py_int_key k = Inr n \<Longrightarrow> n \<in> set P" if "k \<in> fst ` set old_data" for k n
    using map_err_member [OF P, of k] that by auto
  show "KInt (number x) \<notin> fst ` set old_data"
    using known [of "KInt (number x)" "number x"] notin by (auto simp: py_int_key_def)
  show "KStr (py_str (number x)) \<notin> fst ` set old_data"
    using known [of "KStr (py_str (number x))" "number x"] notin
    by (auto simp: py_int_key_def py_int_py_str)
qed

lemma store_issue_total:
  "\<exists>data'. store_issue data issue = Inr data' \<and>
     (\<forall>k. k \<noteq> KInt (issue_number issue) \<longrightarrow> map_of data' k = map_of data k) \<and>
     fst ` set data \<subseteq> fst ` set data' \<and>
     (issue_pull_request issue = None \<longrightarrow> KInt (issue_number issue) \<in> fst ` set data')"
proof (cases "issue_pull_request issue = None")
  case False
  then have "store_issue data issue = Inr data"
    by (simp add: store_issue_def)
  with False show ?thesis
    by auto
next
  case True
  obtain interactions where "get_interactions (issue_comments issue) = Inr interactions"
    using get_interactions_mapping by blast
  with True obtain entry where
    "store_issue data issue = Inr (dict_set data (KInt (issue_number issue)) entry)"
    by (simp add: store_issue_def Let_def)
  moreover have "\<forall>k. k \<noteq> KInt (issue_number issue) \<longrightarrow>
      map_of (dict_set data (KInt (issue_number issue)) entry) k = map_of data k"
    by (simp add: map_of_dict_set)
  moreover have "fst ` set data \<subseteq> fst ` set (dict_set data (KInt (issue_number issue)) entry)"
    and "KInt (issue_number issue) \<in> fst ` set (dict_set data (KInt (issue_number issue)) entry)"
    by (simp_all only: fst_set_dict_set) blast+
  ultimately show ?thesis
    by blast
qed

lemma store_issue_Inr:
  assumes "store_issue data issue = Inr data'"
  shows "k \<noteq> KInt (issue_number issue) \<Longrightarrow> map_of data' k = map_of data k"
    and "fst ` set data \<subseteq> fst ` set data'"
    and "issue_pull_request issue = None \<Longrightarrow> KInt (issue_number issue) \<in> fst ` set data'"
  using store_issue_total [of data issue] assms by auto

lemma for_each_store_issue_total: "\<exists>data'. for_each store_issue issues data = Inr data'"
proof (induction issues arbitrary: data)
  case Nil
  show ?case by simp
next
  case (Cons i issues)
  obtain d1 where "store_issue data i = Inr d1"
    using store_issue_total [of data i] by blast
  with Cons.IH [of d1] show ?case
    by simp
qed

lemma for_each_store_issue_other:
  assumes "for_each store_issue issues data = Inr data'"
    and "k \<notin> (\<lambda>i. KInt (issue_number i)) ` set issues"
  shows "map_of data' k = map_of data k"
  using assms
proof (induction issues arbitrary: data)
  case Nil
  then show ?case by simp
next
  case (Cons i issues)
  from Cons.prems(1) obtain d1 where d1: "store_issue data i = Inr d1"
    and rest: "for_each store_issue issues d1 = Inr data'"
    by (auto split: sum.splits)
  from Cons.prems(2) have "k \<noteq> KInt (issue_number i)"
    and "k \<notin> (\<lambda>i. KInt (issue_number i)) ` set issues"
    by simp_all
  with Cons.IH [OF rest] store_issue_Inr(1) [OF d1] show ?case
    by simp
qed

lemma for_each_store_issue_keys:
  assumes "for_each store_issue issues data = Inr data'"
  shows "fst ` set data \<subseteq> fst ` set data'"
  using assms
proof (induction issues arbitrary: data)
  case Nil
  then show ?case by simp
next
  case (Cons i issues)
  from Cons.prems obtain d1 where d1: "store_issue data i = Inr d1"
    and rest: "for_each store_issue issues d1 = Inr data'"
    by (auto split: sum.splits)
  from Cons.IH [OF rest] store_issue_Inr(2) [OF d1] show ?case
    by (rule order_trans [rotated])
qed

lemma for_each_store_issue_new_key:
  assumes "for_each store_issue issues data = Inr data'"
    and "i \<in> set issues" and "issue_pull_request i = None"
  shows "KInt (issue_number i) \<in> fst ` set data'"
  using assms
proof (induction issues arbitrary: data)
  case Nil
  then show ?case by simp
next
  case (Cons j issues)
  from Cons.prems(1) obtain d1 where d1: "store_issue data j = Inr d1"
    and rest: "for_each store_issue issues d1 = Inr data'"
    by (auto split: sum.splits)
  show ?case
  proof (cases "i \<in> set issues")
    case True
    then show ?thesis
      using Cons.IH [OF rest] Cons.prems(3) by simp
  next
    case False
    with Cons.prems(2) have "i = j" by simp
    with store_issue_Inr(3) [OF d1] Cons.prems(3)
    have "KInt (issue_number i) \<in> fst ` set d1" by simp
    with for_each_store_issue_keys [OF rest] show ?thesis
      by blast
  qed
qed

lemma store_pullrequest_Inr:
  assumes "store_pullrequest results pull = Inr results'"
  shows "\<forall>k. k \<noteq> KStr (py_str (pull_number pull)) \<longrightarrow> map_of results' k = map_of results k"
    and "fst ` set results' = insert (KStr (py_str (pull_number pull))) (fst ` set results)"
proof -
  from assms obtain entry where
    "results' = dict_set results (KStr (py_str (pull_number pull))) entry"
    unfolding store_pullrequest_def Let_def
    by (simp split: sum.splits) blast
  then show "\<forall>k. k \<noteq> KStr (py_str (pull_number pull)) \<longrightarrow>
      map_of results' k = map_of results k"
    and "fst ` set results' = insert (KStr (py_str (pull_number pull))) (fst ` set results)"
    by (simp_all add: map_of_dict_set fst_set_dict_set)
qed

lemma for_each_store_pullrequest:
  assumes "for_each store_pullrequest pulls results = Inr results'"
  shows "\<forall>k. k \<notin> (\<lambda>p. KStr (py_str (pull_number p))) ` set pulls \<longrightarrow>
            map_of results' k = map_of results k"
  using assms
proof (induction pulls arbitrary: results)
  case Nil
  then show ?case by simp
next
  case (Cons p pulls)
  from Cons.prems obtain r1 where r1: "store_pullrequest results p = Inr r1"
    and rest: "for_each store_pullrequest pulls r1 = Inr results'"
    by (auto split: sum.splits)
  from Cons.IH [OF rest] store_pullrequest_Inr(1) [OF r1] show ?case
    by auto
qed

lemma reload_saved:
  "load_previous_knowledge file_path (save_knowledge file_path data w) =
     Inr (json_loads (json_dumps (PDict data)))"
  by (simp add: load_previous_knowledge_def save_knowledge_def json_key_def dict_of_pairs_def
        dict_set_def py_subscript_def dict_get_def py_len_def)

lemma analyse_issues_Inr:
  assumes "analyse_issues project pk w = Inr w'"
  obtains data new_issues where
    "load_previous_knowledge (joinpath pk ''./issues.json'') w = Inr (PDict data)"
    "get_only_new_entities issue_number data
       (filter (\<lambda>issue. issue_pull_request issue = None) (closed_issues project)) = Inr new_issues"
    "new_issues = [] \<Longrightarrow> w' = w"
    "new_issues \<noteq> [] \<Longrightarrow> \<exists>merged. for_each store_issue new_issues data = Inr merged \<and>
        w' = save_knowledge (joinpath pk ''./issues.json'') merged w"
  using assms
  by (auto simp: analyse_issues_def Let_def split: sum.splits pyval.splits if_splits)

lemma analyse_pullrequests_Inr:
  assumes "analyse_pullrequests project pk w = Inr w'"
  obtains prev_pulls new_pulls where
    "load_previous_knowledge (joinpath pk ''./pull_requests.json'') w = Inr (PDict prev_pulls)"
    "get_only_new_entities pull_number prev_pulls (closed_pulls project) = Inr new_pulls"
    "new_pulls = [] \<Longrightarrow> w' = w"
    "new_pulls \<noteq> [] \<Longrightarrow> \<exists>merged. for_each store_pullrequest new_pulls prev_pulls = Inr merged \<and>
        w' = save_knowledge (joinpath pk ''./pull_requests.json'') merged w"
  using assms
  by (auto simp: analyse_pullrequests_def Let_def split: sum.splits pyval.splits if_splits)

lemma merged_issues_extend:
  assumes new: "get_only_new_entities issue_number data current = Inr new_issues"
    and merged: "for_each store_issue new_issues data = Inr merged"
    and k: "map_of data k = Some v"
  shows "map_of merged k = Some v"
proof -
  from k have "(k, v) \<in> set data"
    by (rule map_of_SomeD)
  then have "k \<in> fst ` set data"
    by force
  then have "k \<notin> (\<lambda>i. KInt (issue_number i)) ` set new_issues"
    using new_entities_fresh(1) [OF new] by blast
  then have "map_of merged k = map_of data k"
    by (rule for_each_store_issue_other [OF merged])
  then show ?thesis
    using k by simp
qed

lemma merged_pulls_extend:
  assumes new: "get_only_new_entities pull_number prev_pulls current = Inr new_pulls"
    and merged: "for_each store_pullrequest new_pulls prev_pulls = Inr merged"
    and k: "map_of prev_pulls k = Some v"
  shows "map_of merged k = Some v"
proof -
  from k have "(k, v) \<in> set prev_pulls"
    by (rule map_of_SomeD)
  then have "k \<in> fst ` set prev_pulls"
    by force
  then have "k \<notin> (\<lambda>p. KStr (py_str (pull_number p))) ` set new_pulls"
    using new_entities_fresh(2) [OF new] by blast
  with for_each_store_pullrequest [OF merged] k show ?thesis
    by simp
qed

section \<open>The example run\<close>

lemma get_referenced_issues_eq:
  "get_referenced_issues pull_request =
     Inr (referenced_by_text keyword_without_colons
            (map comment_body (pull_issue_comments pull_request)))"
  by (simp add: get_referenced_issues_def scan_bodies_def for_each_scan_comment)

lemma example_issues_path: "joinpath [''kb''] ''./issues.json'' = [''kb'', ''issues.json'']"
  by (simp add: joinpath_def path_parts_def startswith_def py_split_def)

lemma example_pulls_path:
  "joinpath [''kb''] ''./pull_requests.json'' = [''kb'', ''pull_requests.json'']"
  by (simp add: joinpath_def path_parts_def startswith_def py_split_def)

lemma example_load_issues:
  "load_previous_knowledge [''kb'', ''issues.json''] example_world =
     Inr (PDict [(KStr ''1'', PDict [])])"
  by (simp add: load_previous_knowledge_def example_world_def dict_of_pairs_def dict_set_def
        py_subscript_def dict_get_def py_len_def)

lemma example_load_pulls:
  "load_previous_knowledge [''kb'', ''pull_requests.json''] example_world =
     Inr (PDict [(KStr ''5'', PDict [])])"
  by (simp add: load_previous_knowledge_def example_world_def dict_of_pairs_def dict_set_def
        py_subscript_def dict_get_def py_len_def)

lemma example_known_pulls: "map_err py_int_key (map fst [(KStr ''5'', v)]) = Inr [5]"
  by (simp add: py_int_key_def py_int_def py_strip_def is_space_def digit_val_def
        digit_chars_def upt_rec)

lemma example_known_ids: "map_err py_int_key (map fst [(KStr ''1'', v)]) = Inr [1]"
  by (simp add: py_int_key_def py_int_def py_strip_def is_space_def digit_val_def
        digit_chars_def upt_rec)

lemma example_new_issues:
  "get_only_new_entities issue_number [(KStr ''1'', PDict [])]
     (filter (\<lambda>issue. issue_pull_request issue = None) (closed_issues example_repository)) =
   Inr [example_issue]"
  by (simp add: get_only_new_entities_filter [OF example_known_ids] example_repository_def
        example_issue_def)

lemma example_store_issue:
  "\<exists>entry. store_issue [(KStr ''1'', PDict [])] example_issue =
     Inr [(KStr ''1'', PDict []), (KInt 3, entry)]"
  by (simp add: store_issue_def example_issue_def get_interactions_def count_comment_def
        dict_get_def dict_set_def py_split_def Let_def)

lemma example_analyse_issues:
  "\<exists>entry. analyse_issues example_repository [''kb''] example_world =
     Inr (save_knowledge [''kb'', ''issues.json'']
            [(KStr ''1'', PDict []), (KInt 3, entry)] example_world)"
proof -
  from example_store_issue obtain entry where
    "store_issue [(KStr ''1'', PDict [])] example_issue =
       Inr [(KStr ''1'', PDict []), (KInt 3, entry)]" ..
  then have "analyse_issues example_repository [''kb''] example_world =
     Inr (save_knowledge [''kb'', ''issues.json'']
            [(KStr ''1'', PDict []), (KInt 3, entry)] example_world)"
    by (simp add: analyse_issues_def example_issues_path example_load_issues example_new_issues)
  then show ?thesis ..
qed


lemma example_new_pulls:
  "get_only_new_entities pull_number [(KStr ''5'', PDict [])] (closed_pulls example_repository) =
   Inr [example_pull]"
  by (simp add: get_only_new_entities_filter [OF example_known_pulls] example_repository_def
        example_pull_def)

lemma example_pull_key: "py_str 7 = ''7''"
  by (simp add: py_str_def nat_digits.simps digit_chars_def)

lemma example_store_pullrequest:
  "\<exists>entry. store_pullrequest [(KStr ''5'', PDict [])] example_pull =
     Inr [(KStr ''5'', PDict []), (KStr ''7'', entry)]"
proof -
  have "get_labeled_size (pull_labels example_pull) = Inr (Some ''L'')"
    by (simp add: example_pull_def startswith_def py_split_def py_index_def)
  moreover obtain refs where "get_referenced_issues example_pull = Inr refs"
    using get_referenced_issues_eq by blast
  moreover obtain interactions where
    "get_interactions (pull_issue_comments example_pull) = Inr interactions"
    using get_interactions_mapping by blast
  moreover have "pull_number example_pull = 7"
    by (simp add: example_pull_def)
  ultimately show ?thesis
    by (simp add: store_pullrequest_def Let_def example_pull_key dict_set_def)
qed

lemma example_analyse_pullrequests:
  "\<exists>entry. analyse_pullrequests example_repository [''kb''] example_world =
     Inr (save_knowledge [''kb'', ''pull_requests.json'']
            [(KStr ''5'', PDict []), (KStr ''7'', entry)] example_world)"
proof -
  from example_store_pullrequest obtain entry where
    "store_pullrequest [(KStr ''5'', PDict [])] example_pull =
       Inr [(KStr ''5'', PDict []), (KStr ''7'', entry)]" ..
  then have "analyse_pullrequests example_repository [''kb''] example_world =
     Inr (save_knowledge [''kb'', ''pull_requests.json'']
            [(KStr ''5'', PDict []), (KStr ''7'', entry)] example_world)"
    by (simp add: analyse_pullrequests_def example_pulls_path example_load_pulls
          example_new_pulls)
  then show ?thesis ..
qed

section \<open>What a run of an analysis saves\<close>

text \<open>
  Claim C4. When \<open>analyse_issues\<close> or \<open>analyse_pullrequests\<close> returns, the previous
  knowledge was loaded as a dictionary, and either nothing was saved (the state is
  unchanged) or the state is the one after a single call of \<open>save_knowledge\<close> on the
  knowledge file with a merged dictionary in which every key of the loaded dictionary
  still has the value it had: no loaded key is removed or overwritten.
\<close>

theorem merged_snapshot_extends_loaded:
  "(analyse_issues project pk w = Inr w' \<longrightarrow>
      (\<exists>data. load_previous_knowledge (joinpath pk ''./issues.json'') w = Inr (PDict data) \<and>
         (w' = w \<or>
          (\<exists>merged. w' = save_knowledge (joinpath pk ''./issues.json'') merged w \<and>
             (\<forall>k v. map_of data k = Some v \<longrightarrow> map_of merged k = Some v)))))
   \<and> (analyse_pullrequests project pk w = Inr w' \<longrightarrow>
      (\<exists>data. load_previous_knowledge (joinpath pk ''./pull_requests.json'') w = Inr (PDict data) \<and>
         (w' = w \<or>
          (\<exists>merged. w' = save_knowledge (joinpath pk ''./pull_requests.json'') merged w \<and>
             (\<forall>k v. map_of data k = Some v \<longrightarrow> map_of merged k = Some v)))))"
proof (intro conjI impI)
  assume "analyse_issues project pk w = Inr w'"
  then obtain data new_issues where
    load: "load_previous_knowledge (joinpath pk ''./issues.json'') w = Inr (PDict data)"
    and new: "get_only_new_entities issue_number data
       (filter (\<lambda>issue. issue_pull_request issue = None) (closed_issues project)) = Inr new_issues"
    and none: "new_issues = [] \<Longrightarrow> w' = w"
    and some: "new_issues \<noteq> [] \<Longrightarrow> \<exists>merged. for_each store_issue new_issues data = Inr merged \<and>
        w' = save_knowledge (joinpath pk ''./issues.json'') merged w"
    by (rule analyse_issues_Inr) blast
  show "\<exists>data. load_previous_knowledge (joinpath pk ''./issues.json'') w = Inr (PDict data) \<and>
         (w' = w \<or>
          (\<exists>merged. w' = save_knowledge (joinpath pk ''./issues.json'') merged w \<and>
             (\<forall>k v. map_of data k = Some v \<longrightarrow> map_of merged k = Some v)))"
  proof (cases "new_issues = []")
    case True
    with load none show ?thesis by blast
  next
    case False
    with some obtain merged where m: "for_each store_issue new_issues data = Inr merged"
      "w' = save_knowledge (joinpath pk ''./issues.json'') merged w" by blast
    have "\<forall>k v. map_of data k = Some v \<longrightarrow> map_of merged k = Some v"
      using merged_issues_extend [OF new m(1)] by blast
    with load m(2) show ?thesis by blast
  qed
next
  assume "analyse_pullrequests project pk w = Inr w'"
  then obtain data new_pulls where
    load: "load_previous_knowledge (joinpath pk ''./pull_requests.json'') w = Inr (PDict data)"
    and new: "get_only_new_entities pull_number data (closed_pulls project) = Inr new_pulls"
    and none: "new_pulls = [] \<Longrightarrow> w' = w"
    and some: "new_pulls \<noteq> [] \<Longrightarrow> \<exists>merged. for_each store_pullrequest new_pulls data = Inr merged \<and>
        w' = save_knowledge (joinpath pk ''./pull_requests.json'') merged w"
    by (rule analyse_pullrequests_Inr) blast
  show "\<exists>data. load_previous_knowledge (joinpath pk ''./pull_requests.json'') w = Inr (PDict data) \<and>
         (w' = w \<or>
          (\<exists>merged. w' = save_knowledge (joinpath pk ''./pull_requests.json'') merged w \<and>
             (\<forall>k v. map_of data k = Some v \<longrightarrow> map_of merged k = Some v)))"
  proof (cases "new_pulls = []")
    case True
    with load none show ?thesis by blast
  next
    case False
    with some obtain merged where m: "for_each store_pullrequest new_pulls data = Inr merged"
      "w' = save_knowledge (joinpath pk ''./pull_requests.json'') merged w" by blast
    have "\<forall>k v. map_of data k = Some v \<longrightarrow> map_of merged k = Some v"
      using merged_pulls_extend [OF new m(1)] by blast
    with load m(2) show ?thesis by blast
  qed
qed


theorem merged_snapshot_extends_loaded_witness:
  "(\<exists>w' merged.
      analyse_issues example_repository [''kb''] example_world = Inr w' \<and>
      w' = save_knowledge [''kb'', ''issues.json''] merged example_world \<and>
      map_of merged (KStr ''1'') = Some (PDict []))
   \<and> (\<exists>w' merged.
      analyse_pullrequests example_repository [''kb''] example_world = Inr w' \<and>
      w' = save_knowledge [''kb'', ''pull_requests.json''] merged example_world \<and>
      map_of merged (KStr ''5'') = Some (PDict []))"
proof
  from example_analyse_issues obtain w' where
    run: "analyse_issues example_repository [''kb''] example_world = Inr w'"
    and "save_log w' \<noteq> save_log example_world"
    by (auto simp: save_knowledge_def example_world_def)
  then have changed: "w' \<noteq> example_world"
    by auto
  from merged_snapshot_extends_loaded [of example_repository "[''kb'']" example_world w'] run
  obtain data where
    "load_previous_knowledge [''kb'', ''issues.json''] example_world = Inr (PDict data)"
    and "w' = example_world \<or>
          (\<exists>merged. w' = save_knowledge [''kb'', ''issues.json''] merged example_world \<and>
             (\<forall>k v. map_of data k = Some v \<longrightarrow> map_of merged k = Some v))"
    by (auto simp: example_issues_path)
  with changed obtain merged where
    "w' = save_knowledge [''kb'', ''issues.json''] merged example_world"
    and "\<forall>k v. map_of [(KStr ''1'', PDict [])] k = Some v \<longrightarrow> map_of merged k = Some v"
    by (auto simp: example_load_issues)
  then have "w' = save_knowledge [''kb'', ''issues.json''] merged example_world"
    and "map_of merged (KStr ''1'') = Some (PDict [])"
    by simp_all
  with run show "\<exists>w' merged.
      analyse_issues example_repository [''kb''] example_world = Inr w' \<and>
      w' = save_knowledge [''kb'', ''issues.json''] merged example_world \<and>
      map_of merged (KStr ''1'') = Some (PDict [])"
    by blast
next
  from example_analyse_pullrequests obtain w' where
    run: "analyse_pullrequests example_repository [''kb''] example_world = Inr w'"
    and "save_log w' \<noteq> save_log example_world"
    by (auto simp: save_knowledge_def example_world_def)
  then have changed: "w' \<noteq> example_world"
    by auto
  from merged_snapshot_extends_loaded [of example_repository "[''kb'']" example_world w'] run
  obtain data where
    "load_previous_knowledge [''kb'', ''pull_requests.json''] example_world = Inr (PDict data)"
    and "w' = example_world \<or>
          (\<exists>merged. w' = save_knowledge [''kb'', ''pull_requests.json''] merged example_world \<and>
             (\<forall>k v. map_of data k = Some v \<longrightarrow> map_of merged k = Some v))"
    by (auto simp: example_pulls_path)
  with changed obtain merged where
    "w' = save_knowledge [''kb'', ''pull_requests.json''] merged example_world"
    and "\<forall>k v. map_of [(KStr ''5'', PDict [])] k = Some v \<longrightarrow> map_of merged k = Some v"
    by (auto simp: example_load_pulls)
  then have "w' = save_knowledge [''kb'', ''pull_requests.json''] merged example_world"
    and "map_of merged (KStr ''5'') = Some (PDict [])"
    by simp_all
  with run show "\<exists>w' merged.
      analyse_pullrequests example_repository [''kb''] example_world = Inr w' \<and>
      w' = save_knowledge [''kb'', ''pull_requests.json''] merged example_world \<and>
      map_of merged (KStr ''5'') = Some (PDict [])"
    by blast
qed

text \<open>
  Claim C7. When the listing holds no new entity, \<open>analyse_issues\<close> and
  \<open>analyse_pullrequests\<close> return the state they were given: no file is written and
  no call of \<open>save_knowledge\<close> is logged.
\<close>

theorem no_new_entities_no_save:
  "(load_previous_knowledge (joinpath pk ''./issues.json'') w = Inr (PDict data) \<and>
    get_only_new_entities issue_number data
      (filter (\<lambda>issue. issue_pull_request issue = None) (closed_issues project)) = Inr []
    \<longrightarrow> analyse_issues project pk w = Inr w)
   \<and> (load_previous_knowledge (joinpath pk ''./pull_requests.json'') w = Inr (PDict data) \<and>
    get_only_new_entities pull_number data (closed_pulls project) = Inr []
    \<longrightarrow> analyse_pullrequests project pk w = Inr w)"
  by (simp add: analyse_issues_def analyse_pullrequests_def)


theorem no_new_entities_no_save_witness:
  "analyse_issues (example_repository\<lparr>closed_issues := [example_issue\<lparr>issue_number := 1\<rparr>]\<rparr>)
     [''kb''] example_world = Inr example_world
   \<and> analyse_pullrequests (example_repository\<lparr>closed_pulls := [example_pull\<lparr>pull_number := 5\<rparr>]\<rparr>)
     [''kb''] example_world = Inr example_world"
proof
  let ?project = "example_repository\<lparr>closed_issues := [example_issue\<lparr>issue_number := 1\<rparr>]\<rparr>"
  have load: "load_previous_knowledge (joinpath [''kb''] ''./issues.json'') example_world =
      Inr (PDict [(KStr ''1'', PDict [])])"
    by (simp add: example_issues_path example_load_issues)
  have new: "get_only_new_entities issue_number [(KStr ''1'', PDict [])]
      (filter (\<lambda>issue. issue_pull_request issue = None) (closed_issues ?project)) = Inr []"
    by (simp add: get_only_new_entities_filter [OF example_known_ids] example_issue_def)
  from no_new_entities_no_save [of "[''kb'']" example_world "[(KStr ''1'', PDict [])]" ?project] load new
  show "analyse_issues ?project [''kb''] example_world = Inr example_world"
    by blast
next
  let ?project = "example_repository\<lparr>closed_pulls := [example_pull\<lparr>pull_number := 5\<rparr>]\<rparr>"
  have load: "load_previous_knowledge (joinpath [''kb''] ''./pull_requests.json'') example_world =
      Inr (PDict [(KStr ''5'', PDict [])])"
    by (simp add: example_pulls_path example_load_pulls)
  have new: "get_only_new_entities pull_number [(KStr ''5'', PDict [])]
      (closed_pulls ?project) = Inr []"
    by (simp add: get_only_new_entities_filter [OF example_known_pulls])
  from no_new_entities_no_save [of "[''kb'']" example_world "[(KStr ''5'', PDict [])]" ?project] load new
  show "analyse_pullrequests ?project [''kb''] example_world = Inr example_world"
    by blast
qed

lemma reloaded_keys:
  assumes "json_loads (json_dumps (PDict d)) = PDict d'"
  shows "list_all is_str_key (map fst d')"
    and "KInt n \<in> fst ` set d \<Longrightarrow> fst ` set d' \<noteq> fst ` set d"
proof -
  have keys: "fst ` set d' = (\<lambda>k. KStr (json_key k)) ` fst ` set d"
    using assms by (rule json_loads_keys)
  then show "list_all is_str_key (map fst d')"
    by (auto simp: list_all_iff is_str_key_def)
  show "fst ` set d' \<noteq> fst ` set d" if "KInt n \<in> fst ` set d"
  proof
    assume "fst ` set d' = fst ` set d"
    with that keys have "KInt n \<in> (\<lambda>k. KStr (json_key k)) ` fst ` set d"
      by simp
    then show False
      by blast
  qed
qed

lemma analyse_issues_saves:
  assumes load: "load_previous_knowledge (joinpath pk ''./issues.json'') w = Inr (PDict loaded)"
    and new: "get_only_new_entities issue_number loaded
       (filter (\<lambda>issue. issue_pull_request issue = None) (closed_issues project)) = Inr new_issues"
    and ne: "new_issues \<noteq> []"
  shows "\<exists>merged n.
           for_each store_issue new_issues loaded = Inr merged \<and>
           analyse_issues project pk w =
             Inr (save_knowledge (joinpath pk ''./issues.json'') merged w) \<and>
           KInt n \<in> fst ` set merged"
proof -
  obtain merged where merged: "for_each store_issue new_issues loaded = Inr merged"
    using for_each_store_issue_total by blast
  from ne obtain i where i: "i \<in> set new_issues"
    by (cases new_issues) auto
  from new obtain P where
    "new_issues = filter (\<lambda>x. issue_number x \<notin> set P)
       (filter (\<lambda>issue. issue_pull_request issue = None) (closed_issues project))"
    by (rule get_only_new_entities_Inr)
  with i have "issue_pull_request i = None"
    by simp
  with merged i have "KInt (issue_number i) \<in> fst ` set merged"
    by (rule for_each_store_issue_new_key)
  moreover have "analyse_issues project pk w =
      Inr (save_knowledge (joinpath pk ''./issues.json'') merged w)"
    using ne by (simp add: analyse_issues_def load new merged)
  ultimately show ?thesis
    using merged by blast
qed

text \<open>
  Claim C9. \<open>store_issue\<close> puts the record of an issue under the integer
  \<open>issue.number\<close>, \<open>store_pullrequest\<close> puts the record of a pull request under
  the string \<open>str(pull.number)\<close>. So a run of \<open>analyse_issues\<close> that finds at least
  one new issue saves a dictionary with an integer key; loading the saved file again
  gives a dictionary whose keys are all strings, and its keys are not the keys of the
  dictionary that was saved.
\<close>

theorem issue_keys_become_strings_on_reload:
  "(issue_pull_request issue = None \<longrightarrow>
      (\<exists>data'. store_issue data issue = Inr data' \<and>
                KInt (issue_number issue) \<in> fst ` set data'))
   \<and> (store_pullrequest results pull = Inr results' \<longrightarrow>
        KStr (py_str (pull_number pull)) \<in> fst ` set results')
   \<and> (load_previous_knowledge (joinpath pk ''./issues.json'') w = Inr (PDict loaded) \<and>
        get_only_new_entities issue_number loaded
          (filter (\<lambda>issue. issue_pull_request issue = None) (closed_issues project)) =
          Inr new_issues \<and>
        new_issues \<noteq> [] \<longrightarrow>
        (\<exists>merged reloaded.
           analyse_issues project pk w =
             Inr (save_knowledge (joinpath pk ''./issues.json'') merged w) \<and>
           (\<exists>n. KInt n \<in> fst ` set merged) \<and>
           load_previous_knowledge (joinpath pk ''./issues.json'')
             (save_knowledge (joinpath pk ''./issues.json'') merged w) = Inr (PDict reloaded) \<and>
           list_all is_str_key (map fst reloaded) \<and>
           fst ` set reloaded \<noteq> fst ` set merged))"
proof (intro conjI impI)
  assume "issue_pull_request issue = None"
  with store_issue_total [of data issue]
  show "\<exists>data'. store_issue data issue = Inr data' \<and> KInt (issue_number issue) \<in> fst ` set data'"
    by blast
next
  assume "store_pullrequest results pull = Inr results'"
  then show "KStr (py_str (pull_number pull)) \<in> fst ` set results'"
    by (simp add: store_pullrequest_Inr(2))
next
  assume "load_previous_knowledge (joinpath pk ''./issues.json'') w = Inr (PDict loaded) \<and>
        get_only_new_entities issue_number loaded
          (filter (\<lambda>issue. issue_pull_request issue = None) (closed_issues project)) =
          Inr new_issues \<and>
        new_issues \<noteq> []"
  then obtain merged n where
    run: "analyse_issues project pk w =
            Inr (save_knowledge (joinpath pk ''./issues.json'') merged w)"
    and n: "KInt n \<in> fst ` set merged"
    using analyse_issues_saves [of pk w loaded project new_issues] by blast
  obtain reloaded where reloaded: "json_loads (json_dumps (PDict merged)) = PDict reloaded"
    by simp
  then have "load_previous_knowledge (joinpath pk ''./issues.json'')
             (save_knowledge (joinpath pk ''./issues.json'') merged w) = Inr (PDict reloaded)"
    by (simp only: reload_saved)
  moreover have "list_all is_str_key (map fst reloaded)"
    and "fst ` set reloaded \<noteq> fst ` set merged"
    using reloaded_keys [OF reloaded] n by blast+
  ultimately show "\<exists>merged reloaded.
           analyse_issues project pk w =
             Inr (save_knowledge (joinpath pk ''./issues.json'') merged w) \<and>
           (\<exists>n. KInt n \<in> fst ` set merged) \<and>
           load_previous_knowledge (joinpath pk ''./issues.json'')
             (save_knowledge (joinpath pk ''./issues.json'') merged w) = Inr (PDict reloaded) \<and>
           list_all is_str_key (map fst reloaded) \<and>
           fst ` set reloaded \<noteq> fst ` set merged"
    using run n by blast
qed

theorem issue_keys_become_strings_on_reload_witness:
  "(\<exists>data'. store_issue [] example_issue = Inr data' \<and> KInt 3 \<in> fst ` set data')
   \<and> (\<exists>results'. store_pullrequest [(KStr ''5'', PDict [])] example_pull = Inr results' \<and>
          KStr ''7'' \<in> fst ` set results')
   \<and> (\<exists>merged reloaded.
     analyse_issues example_repository [''kb''] example_world =
       Inr (save_knowledge [''kb'', ''issues.json''] merged example_world) \<and>
     (\<exists>n. KInt n \<in> fst ` set merged) \<and>
     load_previous_knowledge [''kb'', ''issues.json'']
       (save_knowledge [''kb'', ''issues.json''] merged example_world) = Inr (PDict reloaded) \<and>
     list_all is_str_key (map fst reloaded) \<and>
     fst ` set reloaded \<noteq> fst ` set merged)"
proof -
  have load: "load_previous_knowledge (joinpath [''kb''] ''./issues.json'') example_world =
      Inr (PDict [(KStr ''1'', PDict [])])"
    by (simp add: example_issues_path example_load_issues)
  have new: "get_only_new_entities issue_number [(KStr ''1'', PDict [])]
     (filter (\<lambda>issue. issue_pull_request issue = None) (closed_issues example_repository)) =
     Inr [example_issue]"
    by (rule example_new_issues)
  have ne: "[example_issue] \<noteq> []"
    by simp
  have no_pr: "issue_pull_request example_issue = None" and number: "issue_number example_issue = 3"
    by (simp_all add: example_issue_def)
  from example_store_pullrequest obtain results' where
    stored: "store_pullrequest [(KStr ''5'', PDict [])] example_pull = Inr results'"
    by blast
  have pull_key: "py_str (pull_number example_pull) = ''7''"
    by (simp add: example_pull_def example_pull_key)
  note claim = issue_keys_become_strings_on_reload
         [of example_issue "[]" "[(KStr ''5'', PDict [])]" example_pull results' "[''kb'']"
             example_world "[(KStr ''1'', PDict [])]" example_repository "[example_issue]"]
  from claim no_pr
  have "\<exists>data'. store_issue [] example_issue = Inr data' \<and> KInt 3 \<in> fst ` set data'"
    unfolding number by blast
  moreover from claim stored
  have "\<exists>results'. store_pullrequest [(KStr ''5'', PDict [])] example_pull = Inr results' \<and>
          KStr ''7'' \<in> fst ` set results'"
    unfolding pull_key by blast
  moreover from claim load new ne
  have "\<exists>merged reloaded.
     analyse_issues example_repository [''kb''] example_world =
       Inr (save_knowledge [''kb'', ''issues.json''] merged example_world) \<and>
     (\<exists>n. KInt n \<in> fst ` set merged) \<and>
     load_previous_knowledge [''kb'', ''issues.json'']
       (save_knowledge [''kb'', ''issues.json''] merged example_world) = Inr (PDict reloaded) \<and>
     list_all is_str_key (map fst reloaded) \<and>
     fst ` set reloaded \<noteq> fst ` set merged"
    unfolding example_issues_path by blast
  ultimately show ?thesis
    by blast
qed

section \<open>Saving and loading through KnowledgeStorage\<close>

lemma results_round_trip:
  assumes "json_compatible (PDict data)"
  shows "py_subscript (json_loads (json_dumps (PDict [(KStr ''results'', PDict data)]))) ''results'' =
           Inr (PDict data)"
proof -
  have "json_compatible (PDict [(KStr ''results'', PDict data)])"
    using assms by (simp add: is_str_key_def)
  then have "json_loads (json_dumps (PDict [(KStr ''results'', PDict data)])) =
      PDict [(KStr ''results'', PDict data)]"
    by (rule json_round_trip)
  then show ?thesis
    by (simp add: py_subscript_def dict_get_def)
qed

lemma save_then_load_locally:
  assumes "json_compatible (PDict data)"
  shows "load_locally file_path (KnowledgeStorage_save_knowledge True file_path data w) =
           Inr (PDict data)"
  using results_round_trip [OF assms]
  by (simp add: load_locally_def KnowledgeStorage_save_knowledge_def Let_def)

lemma save_then_load_remotely:
  assumes "json_compatible (PDict data)"
  shows "load_remotely file_path (KnowledgeStorage_save_knowledge False file_path data w) =
           Inr (PDict data)"
  using results_round_trip [OF assms]
  by (simp add: load_remotely_def KnowledgeStorage_save_knowledge_def Let_def
        store_document_def retrieve_document_def ceph_filename_def)

lemma load_previous_knowledge_of_loaded:
  assumes "dict_get FILENAME_ENTITY knowledge_type = Inr filename"
    and "(if \<not> is_local then load_remotely file_path w else load_locally file_path w) = Inr results"
  shows "KnowledgeStorage_load_previous_knowledge is_local project_name (Some file_path)
           knowledge_type w =
         (if results = PNone then Inr (PDict [])
          else case py_len results of Inl e \<Rightarrow> Inl e | Inr _ \<Rightarrow> Inr results)"
  using assms by (simp add: KnowledgeStorage_load_previous_knowledge_def)

text \<open>
  Claim C5. Let the Snapshot be JSON-compatible: all keys of its dictionaries are
  strings. Then loading what \<open>save_knowledge\<close> has just saved under the same path,
  on the same backend, returns the Snapshot itself: with \<open>load_locally\<close> after a
  local save, with \<open>load_remotely\<close> after a save to the object store, through
  \<open>load_previous_knowledge\<close> for an entity kind the class knows, and with the two
  functions of \<open>create_bot_knowledge.py\<close>.
\<close>

theorem save_then_load_round_trip:
  "json_compatible (PDict data) \<longrightarrow>
     load_locally file_path (KnowledgeStorage_save_knowledge True file_path data w) =
       Inr (PDict data)
     \<and> load_remotely file_path (KnowledgeStorage_save_knowledge False file_path data w) =
       Inr (PDict data)
     \<and> (dict_get FILENAME_ENTITY knowledge_type = Inr filename \<longrightarrow>
          KnowledgeStorage_load_previous_knowledge is_local project_name (Some file_path)
            knowledge_type (KnowledgeStorage_save_knowledge is_local file_path data w) =
          Inr (PDict data))
     \<and> load_previous_knowledge file_path (save_knowledge file_path data w) = Inr (PDict data)"
proof (intro impI conjI)
  assume jc: "json_compatible (PDict data)"
  show local: "load_locally file_path (KnowledgeStorage_save_knowledge True file_path data w) =
       Inr (PDict data)"
    using jc by (rule save_then_load_locally)
  show remote: "load_remotely file_path (KnowledgeStorage_save_knowledge False file_path data w) =
       Inr (PDict data)"
    using jc by (rule save_then_load_remotely)
  show "load_previous_knowledge file_path (save_knowledge file_path data w) = Inr (PDict data)"
    by (simp only: reload_saved json_round_trip [OF jc])
  assume kind: "dict_get FILENAME_ENTITY knowledge_type = Inr filename"
  have "(if \<not> is_local
         then load_remotely file_path (KnowledgeStorage_save_knowledge is_local file_path data w)
         else load_locally file_path (KnowledgeStorage_save_knowledge is_local file_path data w)) =
        Inr (PDict data)"
    using local remote by (cases is_local) simp_all
  from load_previous_knowledge_of_loaded [OF kind this]
  show "KnowledgeStorage_load_previous_knowledge is_local project_name (Some file_path)
            knowledge_type (KnowledgeStorage_save_knowledge is_local file_path data w) =
          Inr (PDict data)"
    by (simp add: py_len_def)
qed

theorem save_then_load_round_trip_witness:
  "load_locally [''kb'', ''issues.json'']
     (KnowledgeStorage_save_knowledge True [''kb'', ''issues.json'']
        [(KStr ''7'', PDict [(KStr ''size'', PStr ''L''), (KStr ''labels'', PList [PStr ''bug''])])]
        example_world) =
     Inr (PDict [(KStr ''7'', PDict [(KStr ''size'', PStr ''L''), (KStr ''labels'', PList [PStr ''bug''])])])
   \<and> load_remotely [''kb'', ''issues.json'']
     (KnowledgeStorage_save_knowledge False [''kb'', ''issues.json'']
        [(KStr ''7'', PDict [(KStr ''size'', PStr ''L''), (KStr ''labels'', PList [PStr ''bug''])])]
        example_world) =
     Inr (PDict [(KStr ''7'', PDict [(KStr ''size'', PStr ''L''), (KStr ''labels'', PList [PStr ''bug''])])])
   \<and> KnowledgeStorage_load_previous_knowledge False ''o/r'' (Some [''kb'', ''issues.json'']) ''Issue''
     (KnowledgeStorage_save_knowledge False [''kb'', ''issues.json'']
        [(KStr ''7'', PDict [(KStr ''size'', PStr ''L''), (KStr ''labels'', PList [PStr ''bug''])])]
        example_world) =
     Inr (PDict [(KStr ''7'', PDict [(KStr ''size'', PStr ''L''), (KStr ''labels'', PList [PStr ''bug''])])])"
proof -
  let ?data = "[(KStr ''7'', PDict [(KStr ''size'', PStr ''L''),
                  (KStr ''labels'', PList [PStr ''bug''])])] :: (pykey \<times> int pyval) list"
  have jc: "json_compatible (PDict ?data)"
    by (simp add: is_str_key_def)
  have kind: "dict_get FILENAME_ENTITY ''Issue'' = Inr ''issues''"
    by (simp add: dict_get_def FILENAME_ENTITY_def)
  from save_then_load_round_trip
         [of ?data "[''kb'', ''issues.json'']" example_world "''Issue''"
             "''issues''" False "''o/r''"]
       jc kind
  show ?thesis
    by blast
qed

section \<open>Loading when nothing was saved\<close>

lemma load_locally_not_found:
  "files w file_path = None \<or> files w file_path = Some ZeroLength \<Longrightarrow>
   load_locally file_path w = Inr PNone"
  by (auto simp: load_locally_def)

lemma load_remotely_not_found:
  "retrieve_document (ceph_filename w file_path) w = Inl NotFoundError \<Longrightarrow>
   load_remotely file_path w = Inr PNone"
  by (simp add: load_remotely_def)

lemma load_previous_knowledge_none:
  assumes "dict_get FILENAME_ENTITY knowledge_type = Inr filename"
    and "(if \<not> is_local
          then load_remotely
                 (case file_path of Some p \<Rightarrow> p
                  | None \<Rightarrow> default_knowledge_path w project_name filename) w
          else load_locally
                 (case file_path of Some p \<Rightarrow> p
                  | None \<Rightarrow> default_knowledge_path w project_name filename) w) = Inr PNone"
  shows "KnowledgeStorage_load_previous_knowledge is_local project_name file_path
           knowledge_type w = Inr (PDict [])"
  using assms by (simp add: KnowledgeStorage_load_previous_knowledge_def Let_def)

lemma example_default_path:
  "default_knowledge_path example_world ''o/r'' ''pull_requests'' =
     [''/'', ''home'', ''bot'', ''srcopsmetrics'', ''bot_knowledge'', ''o'', ''r'',
      ''pull_requests.json'']"
  by (simp add: default_knowledge_path_def example_world_def joinpath_def path_parts_def
        startswith_def py_split_def Let_def)

lemma unknown_kind_raises:
  "knowledge_type \<noteq> ''Issue'' \<Longrightarrow> knowledge_type \<noteq> ''PullRequest'' \<Longrightarrow>
   KnowledgeStorage_load_previous_knowledge is_local project_name file_path knowledge_type w =
     Inl KeyError"
  by (simp add: KnowledgeStorage_load_previous_knowledge_def dict_get_def FILENAME_ENTITY_def)

text \<open>
  Claim C6. A local file that does not exist or has no length makes \<open>load_locally\<close>
  return \<open>None\<close>, and \<open>NotFoundError\<close> from the object store makes \<open>load_remotely\<close>
  return \<open>None\<close>; neither raises. For an entity kind that the class knows (\<open>Issue\<close>
  or \<open>PullRequest\<close>), \<open>load_previous_knowledge\<close> then returns the empty
  dictionary, whether the path is given or computed from the project name. The
  function of the same name in \<open>create_bot_knowledge.py\<close> returns the empty dictionary
  for a missing or empty file as well.
\<close>

theorem not_found_loads_empty:
  "(files w path = None \<or> files w path = Some ZeroLength \<longrightarrow>
      load_locally path w = Inr PNone \<and> load_previous_knowledge path w = Inr (PDict []))
   \<and> (retrieve_document (ceph_filename w path) w = Inl NotFoundError \<longrightarrow>
      load_remotely path w = Inr PNone)
   \<and> (dict_get FILENAME_ENTITY knowledge_type = Inr filename \<and>
      path = (case file_path of Some p \<Rightarrow> p
              | None \<Rightarrow> default_knowledge_path w project_name filename) \<longrightarrow>
      (files w path = None \<or> files w path = Some ZeroLength \<longrightarrow>
         KnowledgeStorage_load_previous_knowledge True project_name file_path knowledge_type w =
           Inr (PDict []))
      \<and> (retrieve_document (ceph_filename w path) w = Inl NotFoundError \<longrightarrow>
         KnowledgeStorage_load_previous_knowledge False project_name file_path knowledge_type w =
           Inr (PDict [])))
   \<and> dict_get FILENAME_ENTITY ''Issue'' = Inr ''issues''
   \<and> dict_get FILENAME_ENTITY ''PullRequest'' = Inr ''pull_requests''"
proof (intro conjI impI)
  assume "files w path = None \<or> files w path = Some ZeroLength"
  then show "load_locally path w = Inr PNone"
    by (rule load_locally_not_found)
next
  assume "files w path = None \<or> files w path = Some ZeroLength"
  then show "load_previous_knowledge path w = Inr (PDict [])"
    by (auto simp: load_previous_knowledge_def)
next
  assume "retrieve_document (ceph_filename w path) w = Inl NotFoundError"
  then show "load_remotely path w = Inr PNone"
    by (rule load_remotely_not_found)
next
  assume kind: "dict_get FILENAME_ENTITY knowledge_type = Inr filename \<and>
      path = (case file_path of Some p \<Rightarrow> p
              | None \<Rightarrow> default_knowledge_path w project_name filename)"
    and "files w path = None \<or> files w path = Some ZeroLength"
  then have "load_locally path w = Inr PNone"
    by (simp add: load_locally_not_found)
  with kind show "KnowledgeStorage_load_previous_knowledge True project_name file_path
      knowledge_type w = Inr (PDict [])"
    by (intro load_previous_knowledge_none [of knowledge_type filename]) simp_all
next
  assume kind: "dict_get FILENAME_ENTITY knowledge_type = Inr filename \<and>
      path = (case file_path of Some p \<Rightarrow> p
              | None \<Rightarrow> default_knowledge_path w project_name filename)"
    and "retrieve_document (ceph_filename w path) w = Inl NotFoundError"
  then have "load_remotely path w = Inr PNone"
    by (simp add: load_remotely_not_found)
  with kind show "KnowledgeStorage_load_previous_knowledge False project_name file_path
      knowledge_type w = Inr (PDict [])"
    by (intro load_previous_knowledge_none [of knowledge_type filename]) simp_all
next
  show "dict_get FILENAME_ENTITY ''Issue'' = Inr ''issues''"
    by (simp add: dict_get_def FILENAME_ENTITY_def)
  show "dict_get FILENAME_ENTITY ''PullRequest'' = Inr ''pull_requests''"
    by (simp add: dict_get_def FILENAME_ENTITY_def)
qed

theorem not_found_loads_empty_witness:
  "KnowledgeStorage_load_previous_knowledge True ''o/r'' None ''PullRequest'' example_world =
     Inr (PDict [])
   \<and> KnowledgeStorage_load_previous_knowledge False ''o/r'' None ''PullRequest'' example_world =
     Inr (PDict [])
   \<and> KnowledgeStorage_load_previous_knowledge True ''o/r'' (Some [''kb'', ''empty.json''])
       ''Issue'' (example_world\<lparr>files := (files example_world)([''kb'', ''empty.json''] \<mapsto> ZeroLength)\<rparr>) =
     Inr (PDict [])
   \<and> load_locally [''kb'', ''missing.json''] example_world = Inr PNone
   \<and> load_remotely [''kb'', ''issues.json''] example_world = Inr PNone"
proof -
  let ?path = "[''/'', ''home'', ''bot'', ''srcopsmetrics'', ''bot_knowledge'', ''o'', ''r'',
      ''pull_requests.json'']"
  let ?w0 = "example_world\<lparr>files := (files example_world)([''kb'', ''empty.json''] \<mapsto> ZeroLength)\<rparr>"
  have kind: "dict_get FILENAME_ENTITY ''PullRequest'' = Inr ''pull_requests''"
    and kind': "dict_get FILENAME_ENTITY ''Issue'' = Inr ''issues''"
    by (simp_all add: dict_get_def FILENAME_ENTITY_def)
  have path: "?path = (case None of Some p \<Rightarrow> p
              | None \<Rightarrow> default_knowledge_path example_world ''o/r'' ''pull_requests'')"
    by (simp add: example_default_path)
  have missing: "files example_world ?path = None \<or> files example_world ?path = Some ZeroLength"
    by (simp add: example_world_def)
  have absent: "retrieve_document (ceph_filename example_world p) example_world = Inl NotFoundError"
    for p
    by (simp add: retrieve_document_def example_world_def)
  have empty: "files ?w0 [''kb'', ''empty.json''] = None \<or>
      files ?w0 [''kb'', ''empty.json''] = Some ZeroLength"
    by simp
  have missing': "files example_world [''kb'', ''missing.json''] = None \<or>
      files example_world [''kb'', ''missing.json''] = Some ZeroLength"
    by (simp add: example_world_def)
  note a = not_found_loads_empty
      [where w = example_world and path = ?path and knowledge_type = "''PullRequest''"
         and filename = "''pull_requests''" and file_path = None and project_name = "''o/r''"]
  note b = not_found_loads_empty
      [where w = ?w0 and path = "[''kb'', ''empty.json'']" and knowledge_type = "''Issue''"
         and filename = "''issues''" and file_path = "Some [''kb'', ''empty.json'']"
         and project_name = "''o/r''"]
  note c = not_found_loads_empty
      [where w = example_world and path = "[''kb'', ''missing.json'']"
         and knowledge_type = "''Issue''" and filename = "''issues''" and file_path = None
         and project_name = "''o/r''"]
  note d = not_found_loads_empty
      [where w = example_world and path = "[''kb'', ''issues.json'']"
         and knowledge_type = "''Issue''" and filename = "''issues''" and file_path = None
         and project_name = "''o/r''"]
  from a kind path missing absent [of ?path]
  have "KnowledgeStorage_load_previous_knowledge True ''o/r'' None ''PullRequest'' example_world =
     Inr (PDict [])"
    and "KnowledgeStorage_load_previous_knowledge False ''o/r'' None ''PullRequest'' example_world =
     Inr (PDict [])"
    by blast+
  moreover from b kind' empty
  have "KnowledgeStorage_load_previous_knowledge True ''o/r'' (Some [''kb'', ''empty.json''])
       ''Issue'' ?w0 = Inr (PDict [])"
    by simp
  moreover from c missing'
  have "load_locally [''kb'', ''missing.json''] example_world = Inr PNone"
    by blast
  moreover from d absent [of "[''kb'', ''issues.json'']"]
  have "load_remotely [''kb'', ''issues.json''] example_world = Inr PNone"
    by blast
  ultimately show ?thesis
    by blast
qed

end
